theory Spec2Isabelle
  imports Main "HOL-Library.AList"
begin

section \<open>Python values and exceptions\<close>

text \<open>
  The ingest hooks of \<open>hooks/tk-multi-publish2/ingest\<close> work on the document that
  \<open>yaml.load\<close> returns and on Shotgun entity dictionaries.  Both are plain Python
  values: \<open>None\<close>, booleans, integers, strings, lists and dictionaries.  A dictionary
  is kept as an association list with one entry per key; \<open>d[k] = v\<close> is
  \<open>AList.update\<close>, \<open>d.pop(k)\<close> is \<open>AList.delete\<close> after a successful lookup.
  Keys are compared structurally.
\<close>

datatype pyval =
    PNone
  | PBool bool
  | PInt int
  | PStr string
  | PList "pyval list"
  | PDict "(pyval \<times> pyval) list"

type_synonym pydict = "(pyval \<times> pyval) list"

text \<open>Every \<open>raise\<close> of the source, and every exception of a library call, is a value.\<close>

datatype pyexn =
    KeyError pyval
  | IndexError
  | TypeError
  | AttributeError
  | ValueError
  | IOError
  | YAMLError
  | RemoteError
  | Exception string

section \<open>Field Mapper\<close>

text \<open>
  \<open>DEFAULT_MANIFEST_SG_MAPPINGS\<close> (collector.py, lines 28-55): one table for file
  items and three tables for note items.
\<close>

type_synonym mapping_table = "(string \<times> string) list"

record manifest_mappings =
  file_snapshots :: mapping_table
  note_notes :: mapping_table
  note_snapshots :: mapping_table
  note_versions :: mapping_table

definition DEFAULT_MANIFEST_SG_MAPPINGS :: manifest_mappings where
  "DEFAULT_MANIFEST_SG_MAPPINGS = \<lparr>
     file_snapshots =
       [(''id'', ''sg_snapshot_id''), (''user'', ''snapshot_user''),
        (''name'', ''manifest_name''), (''version'', ''snapshot_version'')],
     note_notes =
       [(''notes'', ''description''), (''name'', ''snapshot_name''),
        (''body'', ''content''), (''id'', ''sg_client_note_id'')],
     note_snapshots =
       [(''id'', ''sg_snapshot_id''), (''user'', ''snapshot_user''),
        (''name'', ''manifest_name''), (''version'', ''snapshot_version'')],
     note_versions =
       [(''id'', ''sg_client_version_id''), (''name'', ''version_name'')] \<rparr>"

text \<open>
  The key expression of the dictionary comprehensions at lines 655, 693, 719 and 727:
  \<open>mappings[k] if k in mappings else k\<close>.
\<close>

definition map_key :: "mapping_table \<Rightarrow> string \<Rightarrow> string" where
  "map_key tbl k = (case map_of tbl k of Some k' \<Rightarrow> k' | None \<Rightarrow> k)"

text \<open>A key of the manifest that is not a string is in no table and stays as it is.\<close>

fun map_pykey :: "mapping_table \<Rightarrow> pyval \<Rightarrow> pyval" where
  "map_pykey tbl (PStr k) = PStr (map_key tbl k)"
| "map_pykey tbl k = k"

text \<open>
  The comprehension \<open>{mappings[k] if k in mappings else k: v for k, v in d.iteritems()}\<close>:
  the entries are stored one after the other, a later entry replacing an earlier one
  with the same mapped key.
\<close>

definition map_fields :: "mapping_table \<Rightarrow> pydict \<Rightarrow> pydict" where
  "map_fields tbl d = fold (\<lambda>(k, v) acc. AList.update (map_pykey tbl k) v acc) d []"

text \<open>
  Modelled from the spec: the inverse table of the Field Mapper round trip.  The source
  has no inverse mapping; the spec speaks of "the inverse table (constructed from the
  same mapping)", which is the dictionary \<open>{v: k for k, v in table.iteritems()}\<close>.
\<close>

definition inverse_table :: "mapping_table \<Rightarrow> mapping_table" where
  "inverse_table tbl = fold (\<lambda>(k, v) acc. AList.update v k acc) tbl []"

section \<open>Python operations on values\<close>

text \<open>Sequencing of fallible steps: the first exception ends the computation.\<close>

fun bind_exn :: "pyexn + 'a \<Rightarrow> ('a \<Rightarrow> pyexn + 'b) \<Rightarrow> pyexn + 'b" where
  "bind_exn (Inl e) f = Inl e"
| "bind_exn (Inr x) f = f x"

text \<open>A \<open>for\<close> loop that updates a state and may raise in its body.\<close>

fun fold_exn :: "('a \<Rightarrow> 's \<Rightarrow> pyexn + 's) \<Rightarrow> 'a list \<Rightarrow> 's \<Rightarrow> pyexn + 's" where
  "fold_exn f [] s = Inr s"
| "fold_exn f (x # xs) s = bind_exn (f x s) (fold_exn f xs)"

text \<open>A \<open>for\<close> loop that appends one result per element and may raise in its body.\<close>

fun map_exn :: "('a \<Rightarrow> pyexn + 'b) \<Rightarrow> 'a list \<Rightarrow> pyexn + 'b list" where
  "map_exn f [] = Inr []"
| "map_exn f (x # xs) =
     bind_exn (f x) (\<lambda>y. bind_exn (map_exn f xs) (\<lambda>ys. Inr (y # ys)))"

text \<open>Truth value of an object in \<open>if v:\<close>.\<close>

fun py_truthy :: "pyval \<Rightarrow> bool" where
  "py_truthy PNone = False"
| "py_truthy (PBool b) = b"
| "py_truthy (PInt i) = (i \<noteq> 0)"
| "py_truthy (PStr s) = (s \<noteq> [])"
| "py_truthy (PList xs) = (xs \<noteq> [])"
| "py_truthy (PDict d) = (d \<noteq> [])"

text \<open>Lists and dictionaries cannot be dictionary keys.\<close>

fun py_hashable :: "pyval \<Rightarrow> bool" where
  "py_hashable (PList xs) = False"
| "py_hashable (PDict d) = False"
| "py_hashable v = True"

text \<open>\<open>v.iteritems()\<close>: only a dictionary has the method.\<close>

fun py_iteritems :: "pyval \<Rightarrow> pyexn + pydict" where
  "py_iteritems (PDict d) = Inr d"
| "py_iteritems v = Inl AttributeError"

text \<open>\<open>for x in v\<close>: the elements of a list, the keys of a dictionary, the characters
  of a string.\<close>

fun py_iter :: "pyval \<Rightarrow> pyexn + pyval list" where
  "py_iter (PList xs) = Inr xs"
| "py_iter (PDict d) = Inr (map fst d)"
| "py_iter (PStr s) = Inr (map (\<lambda>c. PStr [c]) s)"
| "py_iter v = Inl TypeError"

fun py_len :: "pyval \<Rightarrow> pyexn + nat" where
  "py_len (PList xs) = Inr (length xs)"
| "py_len (PDict d) = Inr (length d)"
| "py_len (PStr s) = Inr (length s)"
| "py_len v = Inl TypeError"

text \<open>\<open>v["k"]\<close> with a string literal.\<close>

fun py_getitem_str :: "pyval \<Rightarrow> string \<Rightarrow> pyexn + pyval" where
  "py_getitem_str (PDict d) k =
     (case map_of d (PStr k) of Some v \<Rightarrow> Inr v | None \<Rightarrow> Inl (KeyError (PStr k)))"
| "py_getitem_str v k = Inl TypeError"

text \<open>\<open>v[i]\<close> with a non-negative integer.\<close>

fun py_getitem_nat :: "pyval \<Rightarrow> nat \<Rightarrow> pyexn + pyval" where
  "py_getitem_nat (PList xs) i = (if i < length xs then Inr (xs ! i) else Inl IndexError)"
| "py_getitem_nat (PStr s) i = (if i < length s then Inr (PStr [s ! i]) else Inl IndexError)"
| "py_getitem_nat (PDict d) i =
     (case map_of d (PInt (int i)) of Some v \<Rightarrow> Inr v | None \<Rightarrow> Inl (KeyError (PInt (int i))))"
| "py_getitem_nat v i = Inl TypeError"

text \<open>\<open>v.get("k")\<close>.\<close>

fun py_get_str :: "pyval \<Rightarrow> string \<Rightarrow> pyexn + pyval" where
  "py_get_str (PDict d) k = (case map_of d (PStr k) of Some v \<Rightarrow> Inr v | None \<Rightarrow> Inr PNone)"
| "py_get_str v k = Inl AttributeError"

fun str_startswith :: "string \<Rightarrow> string \<Rightarrow> bool" where
  "str_startswith s [] = True"
| "str_startswith [] (p # ps) = False"
| "str_startswith (c # cs) (p # ps) = (c = p \<and> str_startswith cs ps)"

fun str_contains :: "string \<Rightarrow> string \<Rightarrow> bool" where
  "str_contains [] sub = (sub = [])"
| "str_contains (c # cs) sub = (str_startswith (c # cs) sub \<or> str_contains cs sub)"

text \<open>\<open>"k" in v\<close> with a string literal: a key of a dictionary, an element of a list,
  a substring of a string.\<close>

fun py_contains_str :: "string \<Rightarrow> pyval \<Rightarrow> pyexn + bool" where
  "py_contains_str k (PDict d) = Inr (map_of d (PStr k) \<noteq> None)"
| "py_contains_str k (PList xs) = Inr (List.member xs (PStr k))"
| "py_contains_str k (PStr s) = Inr (str_contains s k)"
| "py_contains_str k v = Inl TypeError"

text \<open>\<open>d.pop(k)\<close> on a dictionary: the value and the dictionary without the key.\<close>

definition dict_pop :: "('k \<times> 'v) list \<Rightarrow> 'k \<Rightarrow> ('k \<Rightarrow> pyexn) \<Rightarrow> pyexn + ('v \<times> ('k \<times> 'v) list)" where
  "dict_pop d k err =
     (case map_of d k of None \<Rightarrow> Inl (err k) | Some v \<Rightarrow> Inr (v, AList.delete k d))"

text \<open>\<open>v.pop("k")\<close> on any value: a list takes an index, other values have no \<open>pop\<close>.\<close>

fun py_pop_str :: "pyval \<Rightarrow> string \<Rightarrow> pyexn + pyval" where
  "py_pop_str (PDict d) k =
     bind_exn (dict_pop d (PStr k) KeyError) (\<lambda>(v, d'). Inr (PDict d'))"
| "py_pop_str (PList xs) k = Inl TypeError"
| "py_pop_str v k = Inl AttributeError"

text \<open>\<open>d.update(other)\<close>.\<close>

definition dict_update :: "('k \<times> 'v) list \<Rightarrow> ('k \<times> 'v) list \<Rightarrow> ('k \<times> 'v) list" where
  "dict_update d other = fold (\<lambda>(k, v) acc. AList.update k v acc) other d"

subsection \<open>\<open>os.path\<close> (posixpath)\<close>

definition os_path_join :: "string \<Rightarrow> string \<Rightarrow> string" where
  "os_path_join a b =
     (if str_startswith b ''/'' then b
      else if a = [] \<or> last a = CHR ''/'' then a @ b
      else a @ ''/'' @ b)"

definition os_path_basename :: "string \<Rightarrow> string" where
  "os_path_basename p = rev (takeWhile (\<lambda>c. c \<noteq> CHR ''/'') (rev p))"

definition os_path_dirname :: "string \<Rightarrow> string" where
  "os_path_dirname p =
     (let head = rev (dropWhile (\<lambda>c. c \<noteq> CHR ''/'') (rev p))
      in if head \<noteq> [] \<and> \<not> list_all (\<lambda>c. c = CHR ''/'') head
         then rev (dropWhile (\<lambda>c. c = CHR ''/'') (rev head))
         else head)"

text \<open>\<open>os.path.join(base_dir, v)\<close>: the second argument must be a string.\<close>

fun join_base :: "string \<Rightarrow> pyval \<Rightarrow> pyexn + string" where
  "join_base base_dir (PStr b) = Inr (os_path_join base_dir b)"
| "join_base base_dir v = Inl AttributeError"

section \<open>Manifest Parser: \<open>_process_manifest_file\<close>\<close>

text \<open>
  An entry of \<open>processed_snapshots\<close>: \<open>{"file": data}\<close> or \<open>{"note": data}\<close>, where
  \<open>data\<close> has the mapped \<open>fields\<close> and the \<open>files\<close>, a dictionary from a path to
  its list of tag names.
\<close>

type_synonym file_groups = "(string \<times> pyval list) list"

datatype processed = File pydict file_groups | Note pydict file_groups

text \<open>Lines 669-671 and 679-681: append the tag to the list of the path.\<close>

definition add_tag :: "string \<Rightarrow> pyval \<Rightarrow> file_groups \<Rightarrow> file_groups" where
  "add_tag append_path file_type fs =
     (case map_of fs append_path of
        None \<Rightarrow> AList.update append_path [file_type] fs
      | Some tags \<Rightarrow> AList.update append_path (tags @ [file_type]) fs)"

text \<open>Lines 675-681: one discrete file of a file type.\<close>

definition add_file :: "string \<Rightarrow> pyval \<Rightarrow> pyval \<Rightarrow> file_groups \<Rightarrow> pyexn + file_groups" where
  "add_file base_dir file_type p_file fs =
     bind_exn (py_getitem_str p_file ''path'') (\<lambda>p.
     bind_exn (join_base base_dir p) (\<lambda>append_path.
       Inr (add_tag append_path file_type fs)))"

text \<open>Lines 661-681: the body of the loop over \<open>file_types.iteritems()\<close>.\<close>

definition process_file_type :: "string \<Rightarrow> pyval \<times> pyval \<Rightarrow> file_groups \<Rightarrow> pyexn + file_groups" where
  "process_file_type base_dir ft fs =
     (case ft of (file_type, files) \<Rightarrow>
        bind_exn (py_contains_str ''frame_range'' files) (\<lambda>is_sequence.
          if is_sequence then
            bind_exn (py_getitem_str files ''files'') (\<lambda>l.
            bind_exn (py_getitem_nat l 0) (\<lambda>f0.
            bind_exn (py_getitem_str f0 ''path'') (\<lambda>p.
            bind_exn (join_base base_dir p) (\<lambda>p_file.
              Inr (add_tag (os_path_dirname p_file) file_type fs)))))
          else
            bind_exn (py_getitem_str files ''files'') (\<lambda>p_files.
            bind_exn (py_iter p_files) (\<lambda>ps.
              fold_exn (add_file base_dir file_type) ps fs))))"

text \<open>Lines 652-683: the body of the loop over the snapshots.\<close>

definition process_snapshot :: "mapping_table \<Rightarrow> string \<Rightarrow> pyval \<Rightarrow> pyexn + processed" where
  "process_snapshot tbl base_dir snapshot =
     bind_exn (py_iteritems snapshot) (\<lambda>items.
     bind_exn (dict_pop (map_fields tbl items) (PStr ''file_types'') KeyError) (\<lambda>(file_types, mapped).
     bind_exn (py_iteritems file_types) (\<lambda>fts.
     bind_exn (fold_exn (process_file_type base_dir) fts []) (\<lambda>files.
       Inr (File mapped files)))))"

text \<open>Lines 699-702: \<open>ingest_note_links\<close>, the links of the note keyed by their type.\<close>

definition add_note_link :: "pyval \<Rightarrow> pydict \<Rightarrow> pyexn + pydict" where
  "add_note_link note_link links =
     bind_exn (py_getitem_str note_link ''type'') (\<lambda>t.
       if py_hashable t then Inr (AList.update t note_link links) else Inl TypeError)"

text \<open>Lines 692-702: the fields of the note itself, \<open>data["fields"]\<close> before any merge.\<close>

definition note_own_fields :: "mapping_table \<Rightarrow> pyval \<Rightarrow> pyexn + pydict" where
  "note_own_fields tbl note =
     bind_exn (py_iteritems note) (\<lambda>items.
       case map_of items (PStr ''note_links'') of
         None \<Rightarrow> Inr (map_fields tbl items)
       | Some note_links \<Rightarrow>
           bind_exn (py_iter note_links) (\<lambda>ls.
           bind_exn (fold_exn add_note_link ls []) (\<lambda>links.
             Inr (AList.update (PStr ''ingest_note_links'') (PDict links)
                    (map_fields tbl items)))))"

text \<open>
  Lines 707-712: the snapshot and the version at the position of the note, or two
  empty dictionaries when the position is past the end of either list.  The \<open>or\<close>
  does not evaluate \<open>len(versions)\<close> when its first operand holds.
\<close>

definition note_snapshot_version :: "pyval \<Rightarrow> pyval \<Rightarrow> nat \<Rightarrow> pyexn + (pyval \<times> pyval)" where
  "note_snapshot_version snapshots versions notes_index =
     bind_exn (py_len snapshots) (\<lambda>n_snapshots.
       if notes_index \<ge> n_snapshots then Inr (PDict [], PDict [])
       else
         bind_exn (py_len versions) (\<lambda>n_versions.
           if notes_index \<ge> n_versions then Inr (PDict [], PDict [])
           else
             bind_exn (py_getitem_nat snapshots notes_index) (\<lambda>note_snapshot.
             bind_exn (py_getitem_nat versions notes_index) (\<lambda>note_version.
               Inr (note_snapshot, note_version)))))"

text \<open>
  Lines 714-720: the version without its \<open>notes\<close>, mapped.  The source pops
  \<open>notes\<close> in place from the element of \<open>versions\<close>; every position of the list
  is read for one note only, so the list itself is not threaded through the loop.
\<close>

definition version_fields :: "mapping_table \<Rightarrow> pyval \<Rightarrow> pyexn + pydict" where
  "version_fields tbl note_version =
     bind_exn (py_contains_str ''notes'' note_version) (\<lambda>has_notes.
     bind_exn (if has_notes then py_pop_str note_version ''notes'' else Inr note_version) (\<lambda>v.
     bind_exn (py_iteritems v) (\<lambda>items.
       Inr (map_fields tbl items))))"

text \<open>Lines 726-732: the snapshot, mapped, without \<open>file_types\<close>.\<close>

definition snapshot_fields :: "mapping_table \<Rightarrow> pyval \<Rightarrow> pyexn + pydict" where
  "snapshot_fields tbl note_snapshot =
     bind_exn (py_iteritems note_snapshot) (\<lambda>items.
     bind_exn (py_contains_str ''file_types'' note_snapshot) (\<lambda>has_file_types.
       if has_file_types
       then bind_exn (dict_pop (map_fields tbl items) (PStr ''file_types'') KeyError)
              (\<lambda>(file_types, mapped). Inr mapped)
       else Inr (map_fields tbl items)))"

text \<open>
  Lines 685-735: \<open>data["fields"]\<close> of a note after the two \<open>update\<close> calls, the
  version fields first and the snapshot fields last.
\<close>

definition merge_note_fields ::
  "manifest_mappings \<Rightarrow> pyval \<Rightarrow> pyval \<Rightarrow> nat \<Rightarrow> pyval \<Rightarrow> pyexn + pydict" where
  "merge_note_fields mp snapshots versions notes_index note =
     bind_exn (note_own_fields (note_notes mp) note) (\<lambda>own.
     bind_exn (note_snapshot_version snapshots versions notes_index) (\<lambda>(note_snapshot, note_version).
     bind_exn (version_fields (note_versions mp) note_version) (\<lambda>vf.
     bind_exn (snapshot_fields (note_snapshots mp) note_snapshot) (\<lambda>sf.
       Inr (dict_update (dict_update own vf) sf)))))"

text \<open>Lines 751-752: the absolute path of one attachment.\<close>

definition add_attachment :: "string \<Rightarrow> pyval \<Rightarrow> pyval list \<Rightarrow> pyexn + pyval list" where
  "add_attachment base_dir attachment paths =
     bind_exn (py_getitem_str attachment ''path'') (\<lambda>p.
     bind_exn (join_base base_dir p) (\<lambda>append_path.
       Inr (paths @ [PStr append_path])))"

text \<open>
  Lines 737-754: \<open>attachments\<close> is popped from the merged fields, the first attachment
  gives the only file group, and the field is stored again as the list of paths.
\<close>

definition note_attachments :: "string \<Rightarrow> pydict \<Rightarrow> pyexn + processed" where
  "note_attachments base_dir merged =
     bind_exn (dict_pop merged (PStr ''attachments'') KeyError) (\<lambda>(attachments, rest).
     bind_exn
       (if py_truthy attachments then
          bind_exn (py_getitem_nat attachments 0) (\<lambda>a0.
          bind_exn (py_getitem_str a0 ''path'') (\<lambda>p.
          bind_exn (join_base base_dir p) (\<lambda>append_path.
            Inr [(append_path, [])])))
        else Inr []) (\<lambda>files.
     bind_exn (py_iter attachments) (\<lambda>as.
     bind_exn (fold_exn (add_attachment base_dir) as []) (\<lambda>paths.
       Inr (Note (AList.update (PStr ''attachments'') (PList paths) rest) files)))))"

text \<open>Lines 685-754: the body of the loop over the notes.\<close>

definition process_note ::
  "manifest_mappings \<Rightarrow> string \<Rightarrow> pyval \<Rightarrow> pyval \<Rightarrow> nat \<Rightarrow> pyval \<Rightarrow> pyexn + processed" where
  "process_note mp base_dir snapshots versions notes_index note =
     bind_exn (merge_note_fields mp snapshots versions notes_index note)
       (note_attachments base_dir)"

text \<open>Lines 685-757: the loop over the notes; \<open>notes_index\<close> grows by one per note.\<close>

fun process_notes ::
  "manifest_mappings \<Rightarrow> string \<Rightarrow> pyval \<Rightarrow> pyval \<Rightarrow> nat \<Rightarrow> pyval list \<Rightarrow> pyexn + processed list" where
  "process_notes mp base_dir snapshots versions notes_index [] = Inr []"
| "process_notes mp base_dir snapshots versions notes_index (note # notes) =
     bind_exn (process_note mp base_dir snapshots versions notes_index note) (\<lambda>entry.
     bind_exn (process_notes mp base_dir snapshots versions (Suc notes_index) notes) (\<lambda>entries.
       Inr (entry # entries)))"

text \<open>Lines 633-638, the body of the \<open>try\<close>: the three lists of the document.\<close>

definition read_contents :: "pyval \<Rightarrow> pyexn + (pyval \<times> pyval \<times> pyval)" where
  "read_contents contents =
     bind_exn (py_getitem_str contents ''snapshots'') (\<lambda>snapshots.
     bind_exn (py_contains_str ''notes'' contents) (\<lambda>has_notes.
     bind_exn (if has_notes then py_getitem_str contents ''notes'' else Inr (PList [])) (\<lambda>notes.
     bind_exn (py_contains_str ''versions'' contents) (\<lambda>has_versions.
     bind_exn (if has_versions then py_getitem_str contents ''versions'' else Inr (PList [])) (\<lambda>versions.
       Inr (snapshots, notes, versions))))))"

text \<open>
  \<open>_process_manifest_file\<close> (lines 587-759).  The file system and the YAML library are
  parameters: \<open>open_file path\<close> is \<open>open(path, 'r')\<close>, \<open>yaml_load f\<close> is
  \<open>yaml.load(f)\<close>.  The \<open>with open(...)\<close> statement is entered before the \<open>try\<close>,
  so only \<open>yaml.load\<close> and the three reads of \<open>contents\<close> are guarded; the handler
  logs and returns the empty \<open>processed_snapshots\<close>.  The logger has no effect on the
  result and is left out.  The settings are taken to hold the four mapping tables.
\<close>

definition process_manifest_file ::
  "manifest_mappings \<Rightarrow> (string \<Rightarrow> pyexn + 'f) \<Rightarrow> ('f \<Rightarrow> pyexn + pyval) \<Rightarrow> string
     \<Rightarrow> pyexn + processed list" where
  "process_manifest_file mp open_file yaml_load path =
     (let base_dir = os_path_dirname path in
      case open_file path of
        Inl e \<Rightarrow> Inl e
      | Inr f \<Rightarrow>
          (case bind_exn (yaml_load f) read_contents of
             Inl e \<Rightarrow> Inr []
           | Inr (snapshots, notes, versions) \<Rightarrow>
               bind_exn (py_iter snapshots) (\<lambda>ss.
               bind_exn (map_exn (process_snapshot (file_snapshots mp) base_dir) ss) (\<lambda>files.
               bind_exn (py_iter notes) (\<lambda>ns.
               bind_exn (process_notes mp base_dir snapshots versions 0 ns) (\<lambda>note_entries.
                 Inr (files @ note_entries)))))))"

section \<open>Filter Scorer: \<open>_get_filtered_item_types_from_settings\<close>\<close>

text \<open>A candidate is the tuple \<open>(resolution_order, work_path_template, item_type)\<close>.\<close>

type_synonym candidate = "int \<times> string option \<times> string"

text \<open>\<open>if work_path_template\<close>: neither \<open>None\<close> nor the empty string.\<close>

fun template_present :: "string option \<Rightarrow> bool" where
  "template_present None = False"
| "template_present (Some t) = (t \<noteq> [])"

text \<open>
  Lines 950-992, the body of the loop over \<open>manifest_field_filters.iteritems()\<close>.  The
  parameter \<open>field_value_match\<close> stands for lines 954-988: the two regular expressions
  on the parser string, the method looked up with \<open>getattr\<close> in the \<open>operator\<close>
  module or on the field value, its call, and the comparison of a result that is not
  a boolean with the expected result.  It gives the truth value tested at line 990, or
  the exception of \<open>getattr\<close> or of the call.  A field that the manifest does not
  have, or whose value is false, is not counted.
\<close>

definition score_filter ::
  "(pyval \<Rightarrow> string \<Rightarrow> pyexn + bool) \<Rightarrow> pydict \<Rightarrow> string \<times> string \<Rightarrow> int \<Rightarrow> pyexn + int" where
  "score_filter field_value_match manifest_file_fields flt match_score =
     (case flt of (field, parser_value) \<Rightarrow>
        (case map_of manifest_file_fields (PStr field) of
           None \<Rightarrow> Inr match_score
         | Some field_value \<Rightarrow>
             if py_truthy field_value then
               bind_exn (field_value_match field_value parser_value) (\<lambda>m.
                 Inr (if m then match_score + 1 else match_score))
             else Inr match_score))"

text \<open>Lines 948-992: the match score of one item type.\<close>

definition match_score_of ::
  "(pyval \<Rightarrow> string \<Rightarrow> pyexn + bool) \<Rightarrow> pydict \<Rightarrow> (string \<times> string) list \<Rightarrow> pyexn + int" where
  "match_score_of field_value_match manifest_file_fields manifest_field_filters =
     fold_exn (score_filter field_value_match manifest_file_fields) manifest_field_filters 0"

text \<open>
  Lines 943-1019, the body of the loop in manifest-driven mode.  \<open>filters_of item_type\<close>
  is \<open>_get_item_type_info(settings, item_type)["manifest_field_filters"]\<close>, a
  dictionary from a manifest field to its parser string (empty by default, line 511).
\<close>

definition rescore ::
  "(string \<Rightarrow> (string \<times> string) list) \<Rightarrow> (pyval \<Rightarrow> string \<Rightarrow> pyexn + bool) \<Rightarrow> pydict \<Rightarrow> int
     \<Rightarrow> candidate \<Rightarrow> pyexn + candidate" where
  "rescore filters_of field_value_match manifest_file_fields max_resolution_order c =
     (case c of (resolution_order, work_path_template, item_type) \<Rightarrow>
        if template_present work_path_template \<and> filters_of item_type \<noteq> [] then
          bind_exn (match_score_of field_value_match manifest_file_fields (filters_of item_type))
            (\<lambda>match_score.
               if match_score = int (length (filters_of item_type))
               then Inr (resolution_order - match_score, work_path_template, item_type)
               else Inr (resolution_order + max_resolution_order, work_path_template, item_type))
        else Inr c)"

text \<open>Line 1031: the sort key, which prefers a candidate with a template.\<close>

definition sort_key_of :: "int \<Rightarrow> candidate \<Rightarrow> int" where
  "sort_key_of max_resolution_order elem =
     (case elem of (resolution_order, work_path_template, item_type) \<Rightarrow>
        if \<not> template_present work_path_template then resolution_order
        else resolution_order - max_resolution_order)"

text \<open>Lines 935-936: \<open>max\<close> of a list raises \<open>ValueError\<close> on the empty list.\<close>

fun py_max :: "int list \<Rightarrow> pyexn + int" where
  "py_max [] = Inl ValueError"
| "py_max (x # xs) = Inr (fold max xs x)"

text \<open>
  \<open>_get_filtered_item_types_from_settings\<close> (lines 916-1033).  The list
  \<open>template_item_type_mapping\<close> is the result of the base class; \<open>manifest_file_fields\<close>
  is \<open>Some\<close> of the manifest fields when \<open>creation_properties\<close> has the key and
  \<open>None\<close> otherwise.  \<open>list.sort\<close> is stable, as \<open>sort_key\<close> is.
\<close>

definition get_filtered_item_types_from_settings ::
  "(string \<Rightarrow> (string \<times> string) list) \<Rightarrow> (pyval \<Rightarrow> string \<Rightarrow> pyexn + bool)
     \<Rightarrow> candidate list \<Rightarrow> pydict option \<Rightarrow> pyexn + candidate list" where
  "get_filtered_item_types_from_settings filters_of field_value_match
       template_item_type_mapping manifest_file_fields =
     bind_exn (py_max (map fst template_item_type_mapping)) (\<lambda>max_resolution_order.
     bind_exn
       (case manifest_file_fields of
          Some mff \<Rightarrow>
            map_exn (rescore filters_of field_value_match mff max_resolution_order)
              template_item_type_mapping
        | None \<Rightarrow>
            Inr (filter (\<lambda>(resolution_order, work_path_template, item_type).
                           filters_of item_type = []) template_item_type_mapping))
       (\<lambda>filtered. Inr (sort_key (sort_key_of max_resolution_order) filtered)))"

section \<open>The tracking database\<close>

text \<open>
  The Shotgun client is a parameter.  A query reads the state \<open>'db\<close>; \<open>create\<close>,
  \<open>update\<close> and \<open>delete\<close> return a result or an exception together with the state
  they leave.  A filter is \<open>[field, relation, value]\<close>.
\<close>

type_synonym sg_filter = "string \<times> string \<times> pyval"

record 'db shotgun =
  sg_find_one :: "'db \<Rightarrow> string \<Rightarrow> sg_filter list \<Rightarrow> string list \<Rightarrow> pyexn + pyval"
  sg_create :: "'db \<Rightarrow> string \<Rightarrow> pydict \<Rightarrow> (pyexn + pyval) \<times> 'db"
  sg_update :: "'db \<Rightarrow> string \<Rightarrow> pyval \<Rightarrow> pydict \<Rightarrow> (pyexn + pyval) \<times> 'db"
  sg_delete :: "'db \<Rightarrow> pyval \<Rightarrow> pyval \<Rightarrow> (pyexn + pyval) \<times> 'db"

record sg_context =
  ctx_project :: pyval
  ctx_entity :: pyval
  ctx_step :: pyval
  ctx_task :: pyval

section \<open>Context Resolver: \<open>_get_item_context_from_path\<close>\<close>

text \<open>Line 1079: \<open>step_entity["name"] if step_entity.get("name") else step_entity["code"]\<close>.\<close>

definition step_content :: "pyval \<Rightarrow> pyexn + pyval" where
  "step_content step_entity =
     bind_exn (py_get_str step_entity ''name'') (\<lambda>n.
       if py_truthy n then py_getitem_str step_entity ''name''
       else py_getitem_str step_entity ''code'')"

text \<open>Lines 1057-1074: the step of the context, or the \<open>vendor\<close> step of the entity type.\<close>

definition find_step :: "'db shotgun \<Rightarrow> sg_context \<Rightarrow> 'db \<Rightarrow> pyexn + pyval" where
  "find_step sg ctx db =
     (if \<not> py_truthy (ctx_step ctx) then
        bind_exn (py_getitem_str (ctx_entity ctx) ''type'') (\<lambda>entity_type.
          sg_find_one sg db ''Step''
            [(''short_name'', ''is'', PStr ''vendor''), (''entity_type'', ''is'', entity_type)]
            [''entity_type'', ''code'', ''id'', ''name''])
      else Inr (ctx_step ctx))"

text \<open>
  Lines 1076-1131: find or create the task of the step, set its status, and resolve
  the context again with the step and the task as default entities.
  \<open>base_context db template path default_entities\<close> is the method of the base class.
  Only the \<open>update\<close> call (with its argument \<open>task_entity["id"]\<close>) is inside a
  \<open>try\<close>; the \<open>find_one\<close> and \<open>create\<close> calls are not.
\<close>

definition vendor_task ::
  "'db shotgun \<Rightarrow> ('db \<Rightarrow> string \<Rightarrow> string \<Rightarrow> pyval list \<Rightarrow> pyexn + sg_context) \<Rightarrow> string \<Rightarrow> string
     \<Rightarrow> sg_context \<Rightarrow> pyval \<Rightarrow> 'db \<Rightarrow> (pyexn + sg_context) \<times> 'db" where
  "vendor_task sg base_context work_path_template path ctx step_entity db =
     (case step_content step_entity of
        Inl e \<Rightarrow> (Inl e, db)
      | Inr content \<Rightarrow>
          (case sg_find_one sg db ''Task''
                  [(''step'', ''is'', step_entity), (''entity'', ''is'', ctx_entity ctx),
                   (''project'', ''is'', ctx_project ctx), (''content'', ''is'', content)]
                  [''content'', ''entity_type'', ''id''] of
             Inl e \<Rightarrow> (Inl e, db)
           | Inr found \<Rightarrow>
               (case (if \<not> py_truthy found
                      then sg_create sg db ''Task''
                             [(PStr ''step'', step_entity), (PStr ''project'', ctx_project ctx),
                              (PStr ''entity'', ctx_entity ctx), (PStr ''content'', content),
                              (PStr ''sg_status_list'', PStr ''na'')]
                      else (Inr found, db)) of
                  (Inl e, db1) \<Rightarrow> (Inl e, db1)
                | (Inr task_entity, db1) \<Rightarrow>
                    if py_truthy task_entity then
                      (case py_getitem_str task_entity ''id'' of
                         Inl e \<Rightarrow>
                           (base_context db1 work_path_template path [step_entity, task_entity], db1)
                       | Inr task_id \<Rightarrow>
                           (case sg_update sg db1 ''Task'' task_id
                                   [(PStr ''sg_status_list'', PStr ''na'')] of
                              (r, db2) \<Rightarrow>
                                (base_context db2 work_path_template path
                                   [step_entity, task_entity], db2)))
                    else (base_context db1 work_path_template path [step_entity], db1))))"

text \<open>
  \<open>_get_item_context_from_path\<close> (lines 1035-1133).  \<open>is_template_string t\<close> says that
  the template named \<open>t\<close> exists and is a \<open>TemplateString\<close>.
\<close>

definition get_item_context_from_path ::
  "'db shotgun \<Rightarrow> (string \<Rightarrow> bool) \<Rightarrow> ('db \<Rightarrow> string \<Rightarrow> string \<Rightarrow> pyval list \<Rightarrow> pyexn + sg_context)
     \<Rightarrow> string \<Rightarrow> string \<Rightarrow> pyval list \<Rightarrow> 'db \<Rightarrow> (pyexn + sg_context) \<times> 'db" where
  "get_item_context_from_path sg is_template_string base_context work_path_template path
       default_entities db =
     (let path' = (if is_template_string work_path_template then os_path_basename path else path)
      in case base_context db work_path_template path' default_entities of
           Inl e \<Rightarrow> (Inl e, db)
         | Inr ctx \<Rightarrow>
             if py_truthy (ctx_entity ctx) then
               (case find_step sg ctx db of
                  Inl e \<Rightarrow> (Inl e, db)
                | Inr step_entity \<Rightarrow>
                    if py_truthy step_entity
                    then vendor_task sg base_context work_path_template path' ctx step_entity db
                    else (Inr ctx, db))
             else (Inr ctx, db))"

section \<open>Entity Linker: \<open>undo\<close>\<close>

record item =
  properties :: "(string \<times> pyval) list"
  item_context :: sg_context

definition UNLINKED_ENTITY_TYPE :: string where
  "UNLINKED_ENTITY_TYPE = ''(UNLINKED)''"

text \<open>
  \<open>_resolve_linked_entity_type\<close> (ingest_files.py, lines 353-376).
  \<open>snapshot_settings\<close> is \<open>task_settings['snapshot_type_settings'].value\<close>.
\<close>

definition resolve_linked_entity_type :: "(string \<times> string) list \<Rightarrow> item \<Rightarrow> pyexn + string" where
  "resolve_linked_entity_type snapshot_settings it =
     (case map_of (properties it) ''fields'' of
        None \<Rightarrow> Inl (KeyError (PStr ''fields''))
      | Some item_fields \<Rightarrow>
          bind_exn (py_contains_str ''snapshot_type'' item_fields) (\<lambda>has_type.
            if \<not> has_type then Inl (Exception ''snapshot_type not found in item fields!'')
            else
              bind_exn (py_getitem_str item_fields ''snapshot_type'') (\<lambda>snapshot_type.
                if \<not> py_hashable snapshot_type then Inl TypeError
                else
                  (case (case snapshot_type of PStr s \<Rightarrow> map_of snapshot_settings s | _ \<Rightarrow> None) of
                     Some entity_type \<Rightarrow> Inr entity_type
                   | None \<Rightarrow>
                       (case map_of snapshot_settings ''*'' of
                          Some entity_type \<Rightarrow> Inr entity_type
                        | None \<Rightarrow> Inl (KeyError (PStr ''*'')))))))"

text \<open>Lines 427-450: the filters of the query for the linked entity.\<close>

definition linked_entity_filters :: "item \<Rightarrow> string \<Rightarrow> pyexn + sg_filter list" where
  "linked_entity_filters it linked_entity_type =
     (case map_of (properties it) ''publish_linked_entity_name'' of
        None \<Rightarrow> Inl (KeyError (PStr ''publish_linked_entity_name''))
      | Some entity_name \<Rightarrow>
          (let entity = ctx_entity (item_context it);
               sg_filters = [(''project'', ''is'', ctx_project (item_context it)),
                             (''code'', ''is'', entity_name)]
           in bind_exn
                (if py_truthy entity then
                   bind_exn (py_getitem_str entity ''type'') (\<lambda>t.
                     Inr (if t = PStr ''Shot'' then sg_filters @ [(''sg_shot'', ''is'', entity)]
                          else if t = PStr ''Sequence''
                          then sg_filters @ [(''sg_sequence'', ''is'', entity)]
                          else if t = PStr ''Asset''
                          then sg_filters
                               @ (if linked_entity_type = ''Asset''
                                  then [(''parents'', ''is'', entity)] else [])
                               @ (if linked_entity_type = ''Element''
                                  then [(''assets'', ''in'', entity)] else [])
                          else sg_filters))
                 else Inr sg_filters) (\<lambda>sg_filters.
              (case map_of (properties it) ''fields'' of
                 None \<Rightarrow> Inl (KeyError (PStr ''fields''))
               | Some item_fields \<Rightarrow>
                   bind_exn (py_getitem_str item_fields ''snapshot_type'') (\<lambda>snapshot_type.
                     Inr (if linked_entity_type = ''Asset''
                          then sg_filters @ [(''sg_asset_type'', ''is'', snapshot_type)]
                          else sg_filters))))))"

text \<open>
  \<open>_find_linked_entity\<close> (lines 407-457).  The item comes back as well: the method
  stores \<open>linked_entity_type\<close> in its properties before anything else can fail.
\<close>

definition find_linked_entity ::
  "'db shotgun \<Rightarrow> (string \<times> string) list \<Rightarrow> item \<Rightarrow> string list \<Rightarrow> 'db \<Rightarrow> (pyexn + pyval) \<times> item" where
  "find_linked_entity sg snapshot_settings it query_fields db =
     (case resolve_linked_entity_type snapshot_settings it of
        Inl e \<Rightarrow> (Inl e, it)
      | Inr linked_entity_type \<Rightarrow>
          (let it' = it\<lparr>properties :=
                          AList.update ''linked_entity_type'' (PStr linked_entity_type)
                            (properties it)\<rparr>
           in if linked_entity_type = UNLINKED_ENTITY_TYPE then (Inr PNone, it')
              else
                (bind_exn (linked_entity_filters it' linked_entity_type) (\<lambda>sg_filters.
                   sg_find_one sg db linked_entity_type sg_filters
                     (query_fields @ [''shots'', ''code'', ''id''])),
                 it')))"

text \<open>What \<open>undo\<close> leaves: the exception it raised, the item, the state of the
  database, and the \<open>delete\<close> calls it made.\<close>

record 'db undo_result =
  raised :: "pyexn option"
  item_after :: item
  db_after :: 'db
  delete_calls :: "(pyval \<times> pyval) list"

text \<open>Line 297: \<open>linked_entity_data and linked_entity and
  len(linked_entity["sg_published_files"]) == 0\<close>.\<close>

definition nothing_published :: "pyval \<Rightarrow> pyval \<Rightarrow> pyexn + bool" where
  "nothing_published linked_entity_data linked_entity =
     (if py_truthy linked_entity_data \<and> py_truthy linked_entity then
        bind_exn (py_getitem_str linked_entity ''sg_published_files'') (\<lambda>published.
        bind_exn (py_len published) (\<lambda>n. Inr (n = 0)))
      else Inr False)"

text \<open>
  \<open>undo\<close> (lines 279-312).  The \<open>try\<close> holds the \<open>delete\<close> call, with its arguments
  \<open>linked_entity_data["type"]\<close> and \<open>linked_entity_data["id"]\<close>, and the \<open>pop\<close>; its
  handler logs and goes on.
\<close>

definition undo :: "'db shotgun \<Rightarrow> (string \<times> string) list \<Rightarrow> item \<Rightarrow> 'db \<Rightarrow> 'db undo_result" where
  "undo sg snapshot_settings it db =
     (case map_of (properties it) ''ingest_entity_data'' of
        None \<Rightarrow> \<lparr>raised = None, item_after = it, db_after = db, delete_calls = []\<rparr>
      | Some linked_entity_data \<Rightarrow>
          (case find_linked_entity sg snapshot_settings it [''sg_published_files''] db of
             (Inl e, it1) \<Rightarrow>
               \<lparr>raised = Some e, item_after = it1, db_after = db, delete_calls = []\<rparr>
           | (Inr linked_entity, it1) \<Rightarrow>
               (case nothing_published linked_entity_data linked_entity of
                  Inl e \<Rightarrow>
                    \<lparr>raised = Some e, item_after = it1, db_after = db, delete_calls = []\<rparr>
                | Inr False \<Rightarrow>
                    \<lparr>raised = None, item_after = it1, db_after = db, delete_calls = []\<rparr>
                | Inr True \<Rightarrow>
                    (case bind_exn (py_getitem_str linked_entity_data ''type'') (\<lambda>t.
                          bind_exn (py_getitem_str linked_entity_data ''id'') (\<lambda>i. Inr (t, i))) of
                       Inl e \<Rightarrow>
                         \<lparr>raised = None, item_after = it1, db_after = db, delete_calls = []\<rparr>
                     | Inr (t, i) \<Rightarrow>
                         (case sg_delete sg db t i of
                            (Inl e, db') \<Rightarrow>
                              \<lparr>raised = None, item_after = it1, db_after = db',
                               delete_calls = [(t, i)]\<rparr>
                          | (Inr r, db') \<Rightarrow>
                              \<lparr>raised = None,
                               item_after = it1\<lparr>properties :=
                                 AList.delete ''ingest_entity_data'' (properties it1)\<rparr>,
                               db_after = db', delete_calls = [(t, i)]\<rparr>)))))"

section \<open>Example inputs\<close>

subsection \<open>Filter Scorer\<close>

text \<open>
  An instance of \<open>field_value_match\<close> for the examples.  On a string field value and a
  parser string \<open>%eq:X:True%\<close> the source calls \<open>operator.eq(field_value, "X")\<close>,
  whose result is a boolean and is the match.  The examples use no other parser string.
\<close>

definition operator_eq_match :: "pyval \<Rightarrow> string \<Rightarrow> pyexn + bool" where
  "operator_eq_match field_value parser_value =
     (case field_value of
        PStr s \<Rightarrow> Inr (parser_value = ''%eq:'' @ s @ '':True%'')
      | _ \<Rightarrow> Inr False)"

text \<open>One item type with two filters, two without any; three candidates, the last
  without a template; the manifest fields of a path.\<close>

definition example_filters :: "string \<Rightarrow> (string \<times> string) list" where
  "example_filters item_type =
     (if item_type = ''file.maya''
      then [(''snapshot_type'', ''%eq:maya_model:True%''), (''department'', ''%eq:model:True%'')]
      else [])"

definition example_candidates :: "candidate list" where
  "example_candidates =
     [(1, Some ''maya_work'', ''file.maya''), (2, Some ''generic_work'', ''file.generic''),
      (3, None, ''file.unknown'')]"

definition example_manifest_fields :: "string \<Rightarrow> pydict" where
  "example_manifest_fields department =
     [(PStr ''snapshot_type'', PStr ''maya_model''), (PStr ''department'', PStr department)]"

subsection \<open>Manifest Parser\<close>

text \<open>
  A manifest with two snapshots (one of discrete files, one a sequence), two versions
  and a list of notes.  \<open>example_note\<close> has the key \<open>attachments\<close>,
  \<open>example_bare_note\<close> has not.
\<close>

definition example_snapshot :: "(pyval \<times> pyval) list" where
  "example_snapshot =
     [(PStr ''id'', PInt 1002), (PStr ''name'', PStr ''egypt_riser_a''),
      (PStr ''department'', PStr ''model''),
      (PStr ''file_types'',
         PDict [(PStr ''main'', PDict [(PStr ''files'', PList [PDict [(PStr ''path'', PStr ''a.mb'')]])])])]"

definition example_sequence_snapshot :: "(pyval \<times> pyval) list" where
  "example_sequence_snapshot =
     [(PStr ''id'', PInt 1003), (PStr ''name'', PStr ''plate''),
      (PStr ''file_types'',
         PDict [(PStr ''exr'',
                 PDict [(PStr ''frame_range'', PStr ''1-10''),
                        (PStr ''files'', PList [PDict [(PStr ''path'', PStr ''plates/p.0001.exr'')]])])])]"

definition example_version :: "(pyval \<times> pyval) list" where
  "example_version =
     [(PStr ''id'', PInt 7), (PStr ''name'', PStr ''v001''),
      (PStr ''department'', PStr ''anim''), (PStr ''description'', PStr ''from version''),
      (PStr ''notes'', PList [PInt 11])]"

definition example_snapshots :: "pyval list" where
  "example_snapshots = [PDict example_snapshot, PDict example_sequence_snapshot]"

definition example_versions :: "pyval list" where
  "example_versions = [PDict example_version, PDict [(PStr ''id'', PInt 8)]]"

definition example_note :: "pyval list \<Rightarrow> pyval" where
  "example_note attachments =
     PDict [(PStr ''id'', PInt 11), (PStr ''body'', PStr ''hello''),
            (PStr ''department'', PStr ''edit''), (PStr ''notes'', PStr ''from note''),
            (PStr ''note_type'', PStr ''kickoff''), (PStr ''attachments'', PList attachments)]"

definition example_bare_note :: pyval where
  "example_bare_note = PDict [(PStr ''id'', PInt 12), (PStr ''note_type'', PStr ''kickoff'')]"

definition example_manifest :: "pyval list \<Rightarrow> pyval" where
  "example_manifest notes =
     PDict [(PStr ''snapshots'', PList example_snapshots), (PStr ''notes'', PList notes),
            (PStr ''versions'', PList example_versions)]"

subsection \<open>Entity Linker and Context Resolver\<close>

definition example_entity_data :: pyval where
  "example_entity_data = PDict [(PStr ''type'', PStr ''Element''), (PStr ''id'', PInt 42)]"

definition example_shot :: pyval where
  "example_shot = PDict [(PStr ''type'', PStr ''Shot''), (PStr ''id'', PInt 3)]"

definition example_context :: sg_context where
  "example_context =
     \<lparr>ctx_project = PDict [(PStr ''type'', PStr ''Project''), (PStr ''id'', PInt 1)],
      ctx_entity = example_shot, ctx_step = PNone, ctx_task = PNone\<rparr>"

definition example_item :: item where
  "example_item =
     \<lparr>properties =
        [(''ingest_entity_data'', example_entity_data),
         (''fields'', PDict [(PStr ''snapshot_type'', PStr ''work_plate'')]),
         (''publish_linked_entity_name'', PStr ''plate_bg'')],
      item_context = example_context\<rparr>"

definition example_snapshot_settings :: "(string \<times> string) list" where
  "example_snapshot_settings = [(''*'', ''Element'')]"

text \<open>A tracking database that holds the identifiers of its entities; the linked
  entity that a query finds has the given published files.\<close>

definition linked_entity_shotgun :: "pyval list \<Rightarrow> pyval list shotgun" where
  "linked_entity_shotgun published =
     \<lparr>sg_find_one = (\<lambda>db entity_type filters fields.
        Inr (PDict [(PStr ''type'', PStr entity_type), (PStr ''id'', PInt 42),
                    (PStr ''sg_published_files'', PList published)])),
      sg_create = (\<lambda>db entity_type data. (Inr PNone, db)),
      sg_update = (\<lambda>db entity_type entity_id data. (Inr PNone, db)),
      sg_delete = (\<lambda>db entity_type entity_id. (Inr (PBool True), removeAll entity_id db))\<rparr>"

text \<open>Context resolver\<close>

definition example_step :: pyval where
  "example_step =
     PDict [(PStr ''type'', PStr ''Step''), (PStr ''id'', PInt 5),
            (PStr ''code'', PStr ''Vendor''), (PStr ''entity_type'', PStr ''Shot'')]"

text \<open>A tracking database that has the vendor step and no task, and whose \<open>create\<close>
  call fails.\<close>

definition create_failing_shotgun :: "unit shotgun" where
  "create_failing_shotgun =
     \<lparr>sg_find_one = (\<lambda>db entity_type filters fields.
        if entity_type = ''Step'' then Inr example_step else Inr PNone),
      sg_create = (\<lambda>db entity_type data. (Inl RemoteError, db)),
      sg_update = (\<lambda>db entity_type entity_id data. (Inr PNone, db)),
      sg_delete = (\<lambda>db entity_type entity_id. (Inr PNone, db))\<rparr>"

text \<open>A base class that resolves every path to the example shot, without a step.\<close>

definition example_base_context ::
  "unit \<Rightarrow> string \<Rightarrow> string \<Rightarrow> pyval list \<Rightarrow> pyexn + sg_context" where
  "example_base_context db work_path_template path default_entities = Inr example_context"

section \<open>Field Mapper: the round trip\<close>

lemma map_of_fold_swap_update:
  "map_of (fold (\<lambda>(k, v) acc. AList.update v k acc) tbl acc) =
     map_of acc ++ map_of (rev (map (\<lambda>(k, v). (v, k)) tbl))"
proof (induction tbl arbitrary: acc)
  case Nil
  show ?case by simp
next
  case (Cons p tbl)
  obtain k v where p: "p = (k, v)" by (cases p)
  let ?M = "map_of (rev (map (\<lambda>(k, v). (v, k)) tbl))"
  have "map_of (fold (\<lambda>(k, v) acc. AList.update v k acc) (p # tbl) acc) =
        map_of (AList.update v k acc) ++ ?M"
    using Cons.IH [of "AList.update v k acc"] by (simp add: p)
  also have "\<dots> = (map_of acc)(v \<mapsto> k) ++ ?M"
    by (simp only: update_conv')
  also have "\<dots> = map_of acc ++ map_of (rev (map (\<lambda>(k, v). (v, k)) (p # tbl)))"
    by (rule ext) (simp add: p map_add_def split: option.splits)
  finally show ?case .
qed

lemma map_of_inverse_table:
  "map_of (inverse_table tbl) = map_of (rev (map (\<lambda>(k, v). (v, k)) tbl))"
  by (simp add: inverse_table_def map_of_fold_swap_update)

lemma inverse_table_absent:
  "v \<notin> snd ` set tbl \<Longrightarrow> map_of (inverse_table tbl) v = None"
  by (force simp: map_of_inverse_table map_of_eq_None_iff)

lemma inverse_table_present:
  assumes "distinct (map snd tbl)" and "(k, v) \<in> set tbl"
  shows "map_of (inverse_table tbl) v = Some k"
proof -
  have "distinct (map fst (rev (map (\<lambda>(k, v). (v, k)) tbl)))"
    using assms(1) by (simp add: comp_def split_def rev_map [symmetric])
  moreover have "(v, k) \<in> set (rev (map (\<lambda>(k, v). (v, k)) tbl))"
    using assms(2) by force
  ultimately show ?thesis
    by (simp add: map_of_inverse_table)
qed

text \<open>
  C8 (as stated): for every mapping table and every manifest key, the forward mapping
  followed by the inverse mapping built from the same table gives the key back.  This
  fails on the default file table: the key \<open>sg_snapshot_id\<close> is not in the table, so
  it passes through the forward mapping unchanged, but it is a value of the table, so
  the inverse mapping turns it into \<open>id\<close>.
\<close>

theorem field_mapper_round_trip_counterexample:
  "map_key (inverse_table (file_snapshots DEFAULT_MANIFEST_SG_MAPPINGS))
     (map_key (file_snapshots DEFAULT_MANIFEST_SG_MAPPINGS) ''sg_snapshot_id'')
   \<noteq> ''sg_snapshot_id''"
  by (simp add: DEFAULT_MANIFEST_SG_MAPPINGS_def map_key_def inverse_table_def)

text \<open>A table with two keys for one value loses the first key as well.\<close>

lemma field_mapper_round_trip_not_injective:
  "map_key (inverse_table [(''id'', ''x''), (''name'', ''x'')])
     (map_key [(''id'', ''x''), (''name'', ''x'')] ''id'') = ''name''"
  by (simp add: map_key_def inverse_table_def)

text \<open>
  C8 (amended): when no two keys of the table share a value, the round trip gives back
  every key that is in the table, and every key that is neither a key nor a value of
  the table.
\<close>

theorem field_mapper_round_trip:
  assumes "distinct (map snd tbl)"
    and "k \<in> fst ` set tbl \<or> k \<notin> snd ` set tbl"
  shows "map_key (inverse_table tbl) (map_key tbl k) = k"
proof (cases "map_of tbl k")
  case None
  then have "k \<notin> fst ` set tbl"
    by (simp add: map_of_eq_None_iff)
  with assms(2) have "k \<notin> snd ` set tbl" by simp
  then have "map_of (inverse_table tbl) k = None"
    by (rule inverse_table_absent)
  with None show ?thesis by (simp add: map_key_def)
next
  case (Some v)
  then have "(k, v) \<in> set tbl" by (rule map_of_SomeD)
  with assms(1) have "map_of (inverse_table tbl) v = Some k"
    by (rule inverse_table_present)
  with Some show ?thesis by (simp add: map_key_def)
qed

theorem field_mapper_round_trip_witness:
  "distinct (map snd (note_notes DEFAULT_MANIFEST_SG_MAPPINGS))
   \<and> map_key (inverse_table (note_notes DEFAULT_MANIFEST_SG_MAPPINGS))
       (map_key (note_notes DEFAULT_MANIFEST_SG_MAPPINGS) ''body'') = ''body''
   \<and> map_key (note_notes DEFAULT_MANIFEST_SG_MAPPINGS) ''body'' = ''content''
   \<and> map_key (inverse_table (note_notes DEFAULT_MANIFEST_SG_MAPPINGS))
       (map_key (note_notes DEFAULT_MANIFEST_SG_MAPPINGS) ''note_type'') = ''note_type''"
proof -
  have d: "distinct (map snd (note_notes DEFAULT_MANIFEST_SG_MAPPINGS))"
    by (simp add: DEFAULT_MANIFEST_SG_MAPPINGS_def)
  have p: "''body'' \<in> fst ` set (note_notes DEFAULT_MANIFEST_SG_MAPPINGS)
           \<or> ''body'' \<notin> snd ` set (note_notes DEFAULT_MANIFEST_SG_MAPPINGS)"
    by (simp add: DEFAULT_MANIFEST_SG_MAPPINGS_def)
  have a: "''note_type'' \<in> fst ` set (note_notes DEFAULT_MANIFEST_SG_MAPPINGS)
           \<or> ''note_type'' \<notin> snd ` set (note_notes DEFAULT_MANIFEST_SG_MAPPINGS)"
    by (simp add: DEFAULT_MANIFEST_SG_MAPPINGS_def)
  have m: "map_key (note_notes DEFAULT_MANIFEST_SG_MAPPINGS) ''body'' = ''content''"
    by (simp add: DEFAULT_MANIFEST_SG_MAPPINGS_def map_key_def)
  show ?thesis
    using d m field_mapper_round_trip [OF d p] field_mapper_round_trip [OF d a]
    by simp
qed

section \<open>Filter Scorer: scoring, filtering and the empty list\<close>

lemma bind_exn_Inr_iff:
  "bind_exn m f = Inr y \<longleftrightarrow> (\<exists>x. m = Inr x \<and> f x = Inr y)"
  by (cases m) auto

lemma map_exn_Inr_member:
  "map_exn f xs = Inr ys \<Longrightarrow> x \<in> set xs \<Longrightarrow> \<exists>y \<in> set ys. f x = Inr y"
proof (induction xs arbitrary: ys)
  case Nil
  then show ?case by simp
next
  case (Cons a xs)
  from Cons.prems(1) obtain y ys' where
    a: "f a = Inr y" and r: "map_exn f xs = Inr ys'" and ys: "ys = y # ys'"
    by (auto simp: bind_exn_Inr_iff)
  show ?case
  proof (cases "x = a")
    case True
    with a ys show ?thesis by auto
  next
    case False
    with Cons.prems(2) have "x \<in> set xs" by simp
    from Cons.IH [OF r this] ys show ?thesis by auto
  qed
qed

lemma map_exn_total:
  "(\<And>x. x \<in> set xs \<Longrightarrow> \<exists>y. f x = Inr y) \<Longrightarrow> \<exists>ys. map_exn f xs = Inr ys"
proof (induction xs)
  case Nil
  show ?case by simp
next
  case (Cons a xs)
  from Cons.prems [of a] obtain y where "f a = Inr y" by auto
  moreover from Cons obtain ys where "map_exn f xs = Inr ys" by auto
  ultimately show ?case by simp
qed

lemma py_max_Max:
  assumes "xs \<noteq> []"
  shows "py_max xs = Inr (Max (set xs))"
proof (cases xs)
  case Nil
  with assms show ?thesis by simp
next
  case (Cons a list)
  have "fold max list a = Max (set (a # list))"
    by (rule Max.set_eq_fold [symmetric])
  then show ?thesis using Cons by simp
qed

lemma score_filter_step:
  "score_filter fvm mff flt s = Inr s \<or> score_filter fvm mff flt s = Inr (s + 1)
   \<or> (\<exists>e. score_filter fvm mff flt s = Inl e)"
proof (cases flt)
  case (Pair field p)
  show ?thesis
  proof (cases "map_of mff (PStr field)")
    case None
    with Pair show ?thesis by (simp add: score_filter_def)
  next
    case (Some v)
    show ?thesis
    proof (cases "py_truthy v")
      case False
      with Pair Some show ?thesis by (simp add: score_filter_def)
    next
      case True
      with Pair Some show ?thesis
        by (cases "fvm v p") (simp_all add: score_filter_def)
    qed
  qed
qed

lemma score_filter_shift:
  "score_filter fvm mff flt s =
     (case score_filter fvm mff flt 0 of Inl e \<Rightarrow> Inl e | Inr d \<Rightarrow> Inr (s + d))"
proof (cases flt)
  case (Pair field p)
  show ?thesis
  proof (cases "map_of mff (PStr field)")
    case None
    with Pair show ?thesis by (simp add: score_filter_def)
  next
    case (Some v)
    show ?thesis
    proof (cases "py_truthy v")
      case False
      with Pair Some show ?thesis by (simp add: score_filter_def)
    next
      case True
      with Pair Some show ?thesis
        by (cases "fvm v p") (simp_all add: score_filter_def)
    qed
  qed
qed

lemma match_score_counts_matches:
  assumes "\<forall>flt \<in> set fs. \<exists>d. score_filter fvm mff flt 0 = Inr d"
  shows "fold_exn (score_filter fvm mff) fs s =
           Inr (s + int (length (filter (\<lambda>flt. score_filter fvm mff flt 0 = Inr 1) fs)))"
  using assms
proof (induction fs arbitrary: s)
  case Nil
  show ?case by simp
next
  case (Cons flt fs)
  from Cons.prems obtain d where d: "score_filter fvm mff flt 0 = Inr d" by auto
  with score_filter_step [of fvm mff flt 0] have d01: "d = 0 \<or> d = 1" by auto
  have step: "score_filter fvm mff flt s = Inr (s + d)"
    by (simp add: score_filter_shift [of fvm mff flt s] d)
  from Cons have rest: "fold_exn (score_filter fvm mff) fs (s + d) =
      Inr (s + d + int (length (filter (\<lambda>flt. score_filter fvm mff flt 0 = Inr 1) fs)))"
    by simp
  from d01 show ?case
  proof
    assume "d = 0"
    with d step rest show ?thesis by simp
  next
    assume "d = 1"
    with d step rest show ?thesis by simp
  qed
qed

text \<open>The match score is the number of filters whose field has a true value in the
  manifest and whose evaluation gives a match.\<close>

lemma match_score_is_count:
  assumes "\<forall>flt \<in> set fs. \<exists>d. score_filter fvm mff flt 0 = Inr d"
  shows "match_score_of fvm mff fs =
           Inr (int (length (filter (\<lambda>flt. score_filter fvm mff flt 0 = Inr 1) fs)))"
  using match_score_counts_matches [OF assms, of 0] by (simp add: match_score_of_def)

lemma rescore_total:
  assumes "template_present (fst (snd c)) \<and> filters_of (snd (snd c)) \<noteq> [] \<longrightarrow>
             (\<exists>s. match_score_of fvm mff (filters_of (snd (snd c))) = Inr s)"
  shows "\<exists>c'. rescore filters_of fvm mff mx c = Inr c'"
  using assms by (cases c) (auto simp: rescore_def)

lemma rescore_unfiltered:
  "filters_of (snd (snd c)) = [] \<Longrightarrow> rescore filters_of fvm mff mx c = Inr c"
  by (cases c) (simp add: rescore_def)

lemma rescore_scored:
  assumes "template_present t" and "filters_of it \<noteq> []"
    and "match_score_of fvm mff (filters_of it) = Inr s"
  shows "rescore filters_of fvm mff mx (ro, t, it) =
           Inr (if s = int (length (filters_of it)) then (ro - s, t, it) else (ro + mx, t, it))"
  using assms by (simp add: rescore_def)

lemma filter_scorer_manifest_mode:
  assumes "base \<noteq> []"
  shows "get_filtered_item_types_from_settings filters_of fvm base (Some mff) = Inr out \<longleftrightarrow>
         (\<exists>xs. map_exn (rescore filters_of fvm mff (Max (fst ` set base))) base = Inr xs
               \<and> out = sort_key (sort_key_of (Max (fst ` set base))) xs)"
  using assms
  by (auto simp: get_filtered_item_types_from_settings_def py_max_Max bind_exn_Inr_iff)

lemma filter_scorer_non_manifest_mode:
  assumes "base \<noteq> []"
  shows "get_filtered_item_types_from_settings filters_of fvm base None =
           Inr (sort_key (sort_key_of (Max (fst ` set base)))
                  (filter (\<lambda>c. filters_of (snd (snd c)) = []) base))"
  using assms
  by (simp add: get_filtered_item_types_from_settings_def py_max_Max split_def)

text \<open>
  C1: in manifest-driven mode, a candidate \<open>(resolution_order, work_path_template,
  item_type)\<close> with a template and with filters comes back with
  \<open>resolution_order - match_score\<close> when its match score is the number of its filters,
  and with \<open>resolution_order + max_resolution_order\<close> otherwise, where
  \<open>max_resolution_order\<close> is the maximum over the input list.  The scorer returns as
  soon as no filter evaluation of such a candidate raises.
\<close>

theorem filter_scorer_manifest_scoring:
  assumes "(resolution_order, work_path_template, item_type) \<in> set base"
    and "template_present work_path_template"
    and "filters_of item_type \<noteq> []"
    and "\<forall>c \<in> set base.
           template_present (fst (snd c)) \<and> filters_of (snd (snd c)) \<noteq> [] \<longrightarrow>
           (\<exists>s. match_score_of fvm mff (filters_of (snd (snd c))) = Inr s)"
  shows "\<exists>out match_score.
           get_filtered_item_types_from_settings filters_of fvm base (Some mff) = Inr out
         \<and> match_score_of fvm mff (filters_of item_type) = Inr match_score
         \<and> (if match_score = int (length (filters_of item_type))
            then (resolution_order - match_score, work_path_template, item_type)
            else (resolution_order + Max (fst ` set base), work_path_template, item_type))
           \<in> set out"
proof -
  let ?mx = "Max (fst ` set base)"
  from assms(1) have ne: "base \<noteq> []" by auto
  from assms obtain s where s: "match_score_of fvm mff (filters_of item_type) = Inr s"
    by fastforce
  have "\<exists>xs. map_exn (rescore filters_of fvm mff ?mx) base = Inr xs"
    using assms(4) by (intro map_exn_total rescore_total) blast
  then obtain xs where xs: "map_exn (rescore filters_of fvm mff ?mx) base = Inr xs" ..
  note scored = rescore_scored [where filters_of = filters_of and mx = ?mx
      and ro = resolution_order, OF assms(2,3) s]
  from map_exn_Inr_member [OF xs assms(1)] scored
  have "(if s = int (length (filters_of item_type))
         then (resolution_order - s, work_path_template, item_type)
         else (resolution_order + ?mx, work_path_template, item_type)) \<in> set xs"
    by auto
  moreover have "get_filtered_item_types_from_settings filters_of fvm base (Some mff)
                 = Inr (sort_key (sort_key_of ?mx) xs)"
    using xs by (simp add: filter_scorer_manifest_mode [OF ne])
  ultimately show ?thesis using s by auto
qed

lemma example_scores:
  "match_score_of operator_eq_match (example_manifest_fields ''model'')
     (example_filters ''file.maya'') = Inr 2"
  "match_score_of operator_eq_match (example_manifest_fields ''rig'')
     (example_filters ''file.maya'') = Inr 1"
  "it \<noteq> ''file.maya'' \<Longrightarrow>
     match_score_of operator_eq_match (example_manifest_fields d) (example_filters it) = Inr 0"
  by (simp_all add: match_score_of_def score_filter_def operator_eq_match_def
      example_manifest_fields_def example_filters_def)

lemma example_all_scores:
  "\<forall>c \<in> set example_candidates.
     template_present (fst (snd c)) \<and> example_filters (snd (snd c)) \<noteq> [] \<longrightarrow>
     (\<exists>s. match_score_of operator_eq_match (example_manifest_fields d)
            (example_filters (snd (snd c))) = Inr s)"
  by (simp add: match_score_of_def score_filter_def operator_eq_match_def
      example_manifest_fields_def example_filters_def example_candidates_def)

lemma example_max: "Max (fst ` set example_candidates) = 3"
  by (simp add: example_candidates_def)

theorem filter_scorer_manifest_scoring_witness:
  "(\<exists>out. get_filtered_item_types_from_settings example_filters operator_eq_match
            example_candidates (Some (example_manifest_fields ''model'')) = Inr out
          \<and> (- 1, Some ''maya_work'', ''file.maya'') \<in> set out)
   \<and> (\<exists>out. get_filtered_item_types_from_settings example_filters operator_eq_match
            example_candidates (Some (example_manifest_fields ''rig'')) = Inr out
          \<and> (4, Some ''maya_work'', ''file.maya'') \<in> set out)"
proof -
  have c: "(1, Some ''maya_work'', ''file.maya'') \<in> set example_candidates"
    by (simp add: example_candidates_def)
  have t: "template_present (Some ''maya_work'')" by simp
  have f: "example_filters ''file.maya'' \<noteq> []" by (simp add: example_filters_def)
  have n: "int (length (example_filters ''file.maya'')) = 2" by (simp add: example_filters_def)
  from filter_scorer_manifest_scoring [OF c t f example_all_scores, of "''model''"]
    filter_scorer_manifest_scoring [OF c t f example_all_scores, of "''rig''"]
  show ?thesis
    by (simp add: example_scores example_max n)
qed

text \<open>
  C2: for an empty candidate list the scorer should return the empty list.  The source
  takes \<open>max\<close> of the resolution orders before anything else, so the call raises
  \<open>ValueError\<close> in both modes.
\<close>

theorem filter_scorer_empty_candidates:
  "get_filtered_item_types_from_settings filters_of field_value_match [] manifest_file_fields
   = Inl ValueError"
  by (simp add: get_filtered_item_types_from_settings_def)

text \<open>
  C6: without \<open>manifest_file_fields\<close> the scorer returns exactly the candidates whose
  item type has no filters; with \<open>manifest_file_fields\<close> every candidate whose item
  type has no filters is returned as it is, and the scorer returns as soon as no filter
  evaluation raises.
\<close>

theorem filter_scorer_unfiltered_candidates:
  assumes "base \<noteq> []"
  shows "(\<exists>out. get_filtered_item_types_from_settings filters_of fvm base None = Inr out
              \<and> set out = {c \<in> set base. filters_of (snd (snd c)) = []})
       \<and> (\<forall>out. get_filtered_item_types_from_settings filters_of fvm base (Some mff) = Inr out
              \<longrightarrow> (\<forall>c \<in> set base. filters_of (snd (snd c)) = [] \<longrightarrow> c \<in> set out))
       \<and> ((\<forall>c \<in> set base.
               template_present (fst (snd c)) \<and> filters_of (snd (snd c)) \<noteq> [] \<longrightarrow>
               (\<exists>s. match_score_of fvm mff (filters_of (snd (snd c))) = Inr s))
              \<longrightarrow> (\<exists>out. get_filtered_item_types_from_settings filters_of fvm base (Some mff)
                         = Inr out))"
proof (intro conjI allI impI ballI)
  show "\<exists>out. get_filtered_item_types_from_settings filters_of fvm base None = Inr out
              \<and> set out = {c \<in> set base. filters_of (snd (snd c)) = []}"
    by (simp add: filter_scorer_non_manifest_mode [OF assms])
next
  fix out c
  assume out: "get_filtered_item_types_from_settings filters_of fvm base (Some mff) = Inr out"
    and c: "c \<in> set base" and e: "filters_of (snd (snd c)) = []"
  from out obtain xs where
    xs: "map_exn (rescore filters_of fvm mff (Max (fst ` set base))) base = Inr xs"
    and o: "out = sort_key (sort_key_of (Max (fst ` set base))) xs"
    by (auto simp: filter_scorer_manifest_mode [OF assms])
  from map_exn_Inr_member [OF xs c]
    rescore_unfiltered [where filters_of = filters_of and c = c, OF e]
  have "c \<in> set xs" by auto
  with o show "c \<in> set out" by simp
next
  assume "\<forall>c \<in> set base.
            template_present (fst (snd c)) \<and> filters_of (snd (snd c)) \<noteq> [] \<longrightarrow>
            (\<exists>s. match_score_of fvm mff (filters_of (snd (snd c))) = Inr s)"
  then have "\<exists>xs. map_exn (rescore filters_of fvm mff (Max (fst ` set base))) base = Inr xs"
    by (intro map_exn_total rescore_total) blast
  then show "\<exists>out. get_filtered_item_types_from_settings filters_of fvm base (Some mff) = Inr out"
    by (auto simp: filter_scorer_manifest_mode [OF assms])
qed

theorem filter_scorer_unfiltered_candidates_witness:
  "(\<exists>out. get_filtered_item_types_from_settings example_filters operator_eq_match
            example_candidates None = Inr out
          \<and> set out = {(2, Some ''generic_work'', ''file.generic''), (3, None, ''file.unknown'')})
   \<and> (\<exists>out. get_filtered_item_types_from_settings example_filters operator_eq_match
            example_candidates (Some (example_manifest_fields ''model'')) = Inr out
          \<and> (2, Some ''generic_work'', ''file.generic'') \<in> set out
          \<and> (3, None, ''file.unknown'') \<in> set out)"
proof -
  have ne: "example_candidates \<noteq> []" by (simp add: example_candidates_def)
  have "filter (\<lambda>c. example_filters (snd (snd c)) = []) example_candidates
        = [(2, Some ''generic_work'', ''file.generic''), (3, None, ''file.unknown'')]"
    by (simp add: example_candidates_def example_filters_def)
  then have "set (filter (\<lambda>c. example_filters (snd (snd c)) = []) example_candidates)
        = {(2, Some ''generic_work'', ''file.generic''), (3, None, ''file.unknown'')}"
    by simp
  then have s: "{c \<in> set example_candidates. example_filters (snd (snd c)) = []}
           = {(2, Some ''generic_work'', ''file.generic''), (3, None, ''file.unknown'')}"
    by (simp only: set_filter)
  have g: "(2, Some ''generic_work'', ''file.generic'') \<in> set example_candidates
           \<and> example_filters (snd (snd (2::int, Some ''generic_work'', ''file.generic''))) = []"
    by (simp add: example_candidates_def example_filters_def)
  have u: "(3, None, ''file.unknown'') \<in> set example_candidates
           \<and> example_filters (snd (snd (3::int, None :: string option, ''file.unknown''))) = []"
    by (simp add: example_candidates_def example_filters_def)
  note inst = filter_scorer_unfiltered_candidates [OF ne, of example_filters operator_eq_match
      "example_manifest_fields ''model''"]
  from inst have "\<exists>out. get_filtered_item_types_from_settings example_filters operator_eq_match
            example_candidates None = Inr out
          \<and> set out = {c \<in> set example_candidates. example_filters (snd (snd c)) = []}"
    by (rule conjunct1)
  then have first: "\<exists>out. get_filtered_item_types_from_settings example_filters
            operator_eq_match example_candidates None = Inr out
          \<and> set out = {(2, Some ''generic_work'', ''file.generic''), (3, None, ''file.unknown'')}"
    by (simp only: s)
  from inst example_all_scores [of "''model''"]
  obtain out where out: "get_filtered_item_types_from_settings example_filters operator_eq_match
      example_candidates (Some (example_manifest_fields ''model'')) = Inr out"
    by blast
  with inst have "\<forall>c \<in> set example_candidates. example_filters (snd (snd c)) = [] \<longrightarrow> c \<in> set out"
    by blast
  with g u have "(2, Some ''generic_work'', ''file.generic'') \<in> set out
      \<and> (3, None, ''file.unknown'') \<in> set out"
    by blast
  with out first show ?thesis by blast
qed

lemma example_full_match:
  "get_filtered_item_types_from_settings example_filters operator_eq_match
     example_candidates (Some (example_manifest_fields ''model''))
   = Inr [(- 1, Some ''maya_work'', ''file.maya''), (2, Some ''generic_work'', ''file.generic''),
          (3, None, ''file.unknown'')]"
proof -
  have f: "example_filters ''file.maya'' \<noteq> []"
    "int (length (example_filters ''file.maya'')) = 2"
    "example_filters ''file.generic'' = []" "example_filters ''file.unknown'' = []"
    by (simp_all add: example_filters_def)
  show ?thesis
    by (simp add: get_filtered_item_types_from_settings_def example_candidates_def rescore_def
        example_scores f sort_key_of_def)
qed

section \<open>Manifest Parser: merge precedence, attachments and failures\<close>

lemma distinct_fold_update:
  "distinct (map fst acc) \<Longrightarrow>
   distinct (map fst (fold (\<lambda>(k, v) acc. AList.update (f k) v acc) d acc))"
  by (induction d arbitrary: acc) (auto simp: distinct_update)

lemma distinct_map_fields: "distinct (map fst (map_fields tbl d))"
  by (simp add: map_fields_def distinct_fold_update)

lemma map_of_dict_update:
  "distinct (map fst other) \<Longrightarrow>
   map_of (dict_update d other) k =
     (case map_of other k of Some v \<Rightarrow> Some v | None \<Rightarrow> map_of d k)"
proof (induction other arbitrary: d)
  case Nil
  show ?case by (simp add: dict_update_def)
next
  case (Cons p other)
  obtain a b where p: "p = (a, b)" by (cases p)
  from Cons.prems p have d: "distinct (map fst other)" and a: "a \<notin> fst ` set other"
    by auto
  have "dict_update d (p # other) = dict_update (AList.update a b d) other"
    by (simp add: dict_update_def p)
  then have "map_of (dict_update d (p # other)) k =
      (case map_of other k of Some v \<Rightarrow> Some v | None \<Rightarrow> map_of (AList.update a b d) k)"
    using Cons.IH [OF d] by simp
  also have "\<dots> = (case map_of (p # other) k of Some v \<Rightarrow> Some v | None \<Rightarrow> map_of d k)"
  proof (cases "k = a")
    case True
    with a have "map_of other k = None" by (simp add: map_of_eq_None_iff)
    with True show ?thesis by (simp add: p update_conv')
  next
    case False
    then show ?thesis by (simp add: p update_conv' split: option.splits)
  qed
  finally show ?case .
qed

lemma dict_update_empty: "dict_update d [] = d"
  by (simp add: dict_update_def)

lemma fold_update_delete_other:
  "f k0 \<noteq> k' \<Longrightarrow> map_of acc k' = map_of acc' k' \<Longrightarrow>
   map_of (fold (\<lambda>(k, v) acc. AList.update (f k) v acc) (AList.delete k0 d) acc) k' =
   map_of (fold (\<lambda>(k, v) acc. AList.update (f k) v acc) d acc') k'"
proof (induction d arbitrary: acc acc')
  case Nil
  then show ?case by simp
next
  case (Cons p d)
  obtain k v where p: "p = (k, v)" by (cases p)
  show ?case
  proof (cases "k = k0")
    case True
    have "map_of acc k' = map_of (AList.update (f k0) v acc') k'"
      using Cons.prems by (simp add: update_conv')
    from Cons.IH [OF Cons.prems(1) this] True p show ?thesis by simp
  next
    case False
    have "map_of (AList.update (f k) v acc) k' = map_of (AList.update (f k) v acc') k'"
      using Cons.prems by (simp add: update_conv')
    from Cons.IH [OF Cons.prems(1) this] False p show ?thesis by simp
  qed
qed

lemma map_fields_delete_other:
  "map_pykey tbl k0 \<noteq> k' \<Longrightarrow>
   map_of (map_fields tbl (AList.delete k0 d)) k' = map_of (map_fields tbl d) k'"
  by (simp add: map_fields_def fold_update_delete_other)

lemma version_fields_dict:
  "version_fields tbl (PDict version) =
     Inr (map_fields tbl (AList.delete (PStr ''notes'') version))"
proof (cases "map_of version (PStr ''notes'')")
  case None
  then have "PStr ''notes'' \<notin> fst ` set version"
    by (simp add: map_of_eq_None_iff)
  then have "AList.delete (PStr ''notes'') version = version"
    by (rule delete_id)
  with None show ?thesis by (simp add: version_fields_def)
next
  case (Some v)
  then show ?thesis by (simp add: version_fields_def dict_pop_def)
qed

lemma version_fields_lookup:
  assumes "key \<noteq> PStr (map_key tbl ''notes'')"
  shows "version_fields tbl (PDict version) = Inr vf \<Longrightarrow>
         map_of vf key = map_of (map_fields tbl version) key"
  using assms by (auto simp: version_fields_dict map_fields_delete_other)

lemma snapshot_fields_lookup:
  assumes "snapshot_fields tbl (PDict snapshot) = Inr sf" and "key \<noteq> PStr ''file_types''"
  shows "map_of sf key = map_of (map_fields tbl snapshot) key"
  using assms
  by (auto simp: snapshot_fields_def dict_pop_def bind_exn_Inr_iff
      split: if_splits option.splits)

lemma snapshot_fields_distinct:
  assumes "snapshot_fields tbl (PDict snapshot) = Inr sf"
  shows "distinct (map fst sf)"
  using assms
  by (auto simp: snapshot_fields_def dict_pop_def bind_exn_Inr_iff distinct_map_fields
      distinct_delete split: if_splits option.splits)

lemma note_snapshot_version_in_range:
  assumes "notes_index < length snapshots" and "notes_index < length versions"
  shows "note_snapshot_version (PList snapshots) (PList versions) notes_index =
           Inr (snapshots ! notes_index, versions ! notes_index)"
  using assms by (simp add: note_snapshot_version_def)

lemma note_snapshot_version_out_of_range:
  assumes "notes_index \<ge> length snapshots \<or> notes_index \<ge> length versions"
  shows "note_snapshot_version (PList snapshots) (PList versions) notes_index =
           Inr (PDict [], PDict [])"
  using assms by (auto simp: note_snapshot_version_def)

lemma empty_contributions:
  "version_fields tbl (PDict []) = Inr []" "snapshot_fields tbl' (PDict []) = Inr []"
  by (simp_all add: version_fields_def snapshot_fields_def map_fields_def)

text \<open>Apart from \<open>ingest_note_links\<close>, the note's own fields are the mapped note.\<close>

lemma note_own_fields_lookup:
  assumes "note_own_fields tbl (PDict note) = Inr own"
    and "key \<noteq> PStr ''ingest_note_links''"
  shows "map_of own key = map_of (map_fields tbl note) key"
proof (cases "map_of note (PStr ''note_links'')")
  case None
  with assms(1) show ?thesis by (simp add: note_own_fields_def)
next
  case (Some note_links)
  with assms(1) obtain links where
    "own = AList.update (PStr ''ingest_note_links'') (PDict links) (map_fields tbl note)"
    by (auto simp: note_own_fields_def bind_exn_Inr_iff)
  with assms(2) show ?thesis by (simp add: update_conv')
qed

text \<open>
  C4: for a note whose position is within both lists, and for every key other than
  \<open>file_types\<close> and the (mapped) \<open>notes\<close> key of the version, the merged fields
  give the value of the mapped snapshot if it has the key, else the value of the
  mapped version if it has the key, else the value of the note's own fields (the
  mapped note with \<open>ingest_note_links\<close>).
\<close>

theorem note_field_precedence:
  assumes "notes_index < length snapshots" and "notes_index < length versions"
    and "snapshots ! notes_index = PDict snapshot"
    and "versions ! notes_index = PDict version"
    and "note_own_fields (note_notes mp) note = Inr own"
    and "snapshot_fields (note_snapshots mp) (PDict snapshot) = Inr sf"
  shows "\<exists>final.
           merge_note_fields mp (PList snapshots) (PList versions) notes_index note = Inr final
         \<and> (\<forall>key. key \<noteq> PStr ''file_types''
                  \<and> key \<noteq> PStr (map_key (note_versions mp) ''notes'') \<longrightarrow>
              map_of final key =
                (case map_of (map_fields (note_snapshots mp) snapshot) key of
                   Some v \<Rightarrow> Some v
                 | None \<Rightarrow>
                     (case map_of (map_fields (note_versions mp) version) key of
                        Some v \<Rightarrow> Some v
                      | None \<Rightarrow> map_of own key)))"
proof -
  let ?vf = "map_fields (note_versions mp) (AList.delete (PStr ''notes'') version)"
  let ?final = "dict_update (dict_update own ?vf) sf"
  have m: "merge_note_fields mp (PList snapshots) (PList versions) notes_index note = Inr ?final"
    using assms
    by (simp add: merge_note_fields_def note_snapshot_version_in_range version_fields_dict)
  have "map_of ?final key =
          (case map_of (map_fields (note_snapshots mp) snapshot) key of
             Some v \<Rightarrow> Some v
           | None \<Rightarrow>
               (case map_of (map_fields (note_versions mp) version) key of
                  Some v \<Rightarrow> Some v
                | None \<Rightarrow> map_of own key))"
    if k: "key \<noteq> PStr ''file_types''" "key \<noteq> PStr (map_key (note_versions mp) ''notes'')"
    for key
  proof -
    have s: "map_of sf key = map_of (map_fields (note_snapshots mp) snapshot) key"
      using assms(6) k(1) by (rule snapshot_fields_lookup)
    have v: "map_of ?vf key = map_of (map_fields (note_versions mp) version) key"
      using k(2) by (simp add: map_fields_delete_other)
    show ?thesis
      by (simp add: map_of_dict_update snapshot_fields_distinct [OF assms(6)]
          distinct_map_fields s v split: option.splits)
  qed
  with m show ?thesis by blast
qed

text \<open>
  C5: for a note whose position is past the end of the snapshots or of the versions, the
  merged fields are the note's own fields, and the merge fails exactly when these do.
\<close>

theorem note_without_snapshot_or_version:
  assumes "notes_index \<ge> length snapshots \<or> notes_index \<ge> length versions"
  shows "merge_note_fields mp (PList snapshots) (PList versions) notes_index note =
           note_own_fields (note_notes mp) note"
proof (cases "note_own_fields (note_notes mp) note")
  case (Inl e)
  then show ?thesis by (simp add: merge_note_fields_def)
next
  case (Inr own)
  then show ?thesis
    using assms
    by (simp add: merge_note_fields_def note_snapshot_version_out_of_range
        empty_contributions dict_update_empty)
qed

lemma process_notes_append:
  "process_notes mp base_dir snapshots versions i (pre @ post) =
     bind_exn (process_notes mp base_dir snapshots versions i pre) (\<lambda>es.
     bind_exn (process_notes mp base_dir snapshots versions (i + length pre) post) (\<lambda>es'.
       Inr (es @ es')))"
proof (induction pre arbitrary: i)
  case Nil
  show ?case
    by (cases "process_notes mp base_dir snapshots versions i post") simp_all
next
  case (Cons n pre)
  show ?case
  proof (cases "process_note mp base_dir snapshots versions i n")
    case (Inl e)
    then show ?thesis by simp
  next
    case entry: (Inr entry)
    show ?thesis
    proof (cases "process_notes mp base_dir snapshots versions (Suc i) pre")
      case (Inl e)
      with entry Cons.IH [of "Suc i"] show ?thesis by simp
    next
      case es: (Inr es)
      show ?thesis
      proof (cases "process_notes mp base_dir snapshots versions (Suc (i + length pre)) post")
        case (Inl e)
        with entry es Cons.IH [of "Suc i"] show ?thesis by simp
      next
        case (Inr es')
        with entry es Cons.IH [of "Suc i"] show ?thesis by simp
      qed
    qed
  qed
qed

lemma note_attachments_missing:
  "map_of merged (PStr ''attachments'') = None \<Longrightarrow>
   note_attachments base_dir merged = Inl (KeyError (PStr ''attachments''))"
  by (simp add: note_attachments_def dict_pop_def)

lemma note_attachments_empty:
  "map_of merged (PStr ''attachments'') = Some (PList []) \<Longrightarrow>
   note_attachments base_dir merged =
     Inr (Note (AList.update (PStr ''attachments'') (PList [])
                  (AList.delete (PStr ''attachments'') merged)) [])"
  by (simp add: note_attachments_def dict_pop_def)

lemma process_manifest_file_loaded:
  assumes "open_file path = Inr f"
    and "bind_exn (yaml_load f) read_contents = Inr (snapshots, PList notes, versions)"
    and "py_iter snapshots = Inr ss"
    and "map_exn (process_snapshot (file_snapshots mp) (os_path_dirname path)) ss = Inr files"
  shows "process_manifest_file mp open_file yaml_load path =
           bind_exn (process_notes mp (os_path_dirname path) snapshots versions 0 notes)
             (\<lambda>note_entries. Inr (files @ note_entries))"
  using assms by (simp add: process_manifest_file_def Let_def)

text \<open>
  C10: \<open>attachments\<close> is popped from the merged fields of every note.  When the key is
  absent the \<open>KeyError\<close> ends the whole of \<open>_process_manifest_file\<close>; when its
  value is the empty list the note becomes an entry without file group whose
  \<open>attachments\<close> field is the empty list again.
\<close>

theorem note_attachments_required:
  assumes "open_file path = Inr f"
    and "bind_exn (yaml_load f) read_contents
           = Inr (snapshots, PList (pre @ note # rest), versions)"
    and "py_iter snapshots = Inr ss"
    and "map_exn (process_snapshot (file_snapshots mp) (os_path_dirname path)) ss = Inr files"
    and "process_notes mp (os_path_dirname path) snapshots versions 0 pre = Inr entries"
    and "merge_note_fields mp snapshots versions (length pre) note = Inr merged"
  shows "(map_of merged (PStr ''attachments'') = None \<longrightarrow>
            process_manifest_file mp open_file yaml_load path
              = Inl (KeyError (PStr ''attachments'')))
       \<and> (map_of merged (PStr ''attachments'') = Some (PList []) \<longrightarrow>
            process_note mp (os_path_dirname path) snapshots versions (length pre) note
              = Inr (Note (AList.update (PStr ''attachments'') (PList [])
                             (AList.delete (PStr ''attachments'') merged)) [])
          \<and> (\<forall>more. process_notes mp (os_path_dirname path) snapshots versions
                         (Suc (length pre)) rest = Inr more \<longrightarrow>
                 process_manifest_file mp open_file yaml_load path
                   = Inr (files @ entries
                          @ Note (AList.update (PStr ''attachments'') (PList [])
                                    (AList.delete (PStr ''attachments'') merged)) []
                          # more)))"
proof -
  let ?base = "os_path_dirname path"
  have whole: "process_manifest_file mp open_file yaml_load path =
      bind_exn (process_notes mp ?base snapshots versions 0 (pre @ note # rest))
        (\<lambda>note_entries. Inr (files @ note_entries))"
    using assms(1-4) by (rule process_manifest_file_loaded)
  have loop: "process_notes mp ?base snapshots versions 0 (pre @ note # rest) =
      bind_exn (process_note mp ?base snapshots versions (length pre) note) (\<lambda>entry.
      bind_exn (process_notes mp ?base snapshots versions (Suc (length pre)) rest) (\<lambda>more.
        Inr (entries @ entry # more)))"
  proof (cases "process_note mp ?base snapshots versions (length pre) note")
    case (Inl e)
    then show ?thesis by (simp add: process_notes_append assms(5))
  next
    case entry: (Inr entry)
    show ?thesis
      by (cases "process_notes mp ?base snapshots versions (Suc (length pre)) rest")
        (simp_all add: process_notes_append assms(5) entry)
  qed
  have single: "process_note mp ?base snapshots versions (length pre) note
              = note_attachments ?base merged"
    by (simp add: process_note_def assms(6))
  show ?thesis
  proof (intro conjI impI allI)
    assume "map_of merged (PStr ''attachments'') = None"
    then show "process_manifest_file mp open_file yaml_load path
                 = Inl (KeyError (PStr ''attachments''))"
      by (simp add: whole loop single note_attachments_missing)
  next
    assume "map_of merged (PStr ''attachments'') = Some (PList [])"
    then show "process_note mp ?base snapshots versions (length pre) note
                 = Inr (Note (AList.update (PStr ''attachments'') (PList [])
                                (AList.delete (PStr ''attachments'') merged)) [])"
      by (simp add: single note_attachments_empty)
  next
    fix more
    assume "map_of merged (PStr ''attachments'') = Some (PList [])"
      and "process_notes mp ?base snapshots versions (Suc (length pre)) rest = Inr more"
    then show "process_manifest_file mp open_file yaml_load path
                 = Inr (files @ entries
                        @ Note (AList.update (PStr ''attachments'') (PList [])
                                  (AList.delete (PStr ''attachments'') merged)) []
                        # more)"
      by (simp add: whole loop single note_attachments_empty)
  qed
qed

text \<open>
  C3: a manifest that cannot be read should give the empty list.  The \<open>open\<close> call
  is outside the \<open>try\<close>, so its failure reaches the caller; failures of
  \<open>yaml.load\<close> and of the reads of the document are caught (lemma
  \<open>manifest_load_failure_empty\<close> below).
\<close>

theorem manifest_open_failure_raises:
  "process_manifest_file mp (\<lambda>p. Inl IOError) yaml_load path = Inl IOError"
  by (simp add: process_manifest_file_def)

lemma manifest_load_failure_empty:
  assumes "open_file path = Inr f" and "bind_exn (yaml_load f) read_contents = Inl e"
  shows "process_manifest_file mp open_file yaml_load path = Inr []"
  using assms by (simp add: process_manifest_file_def)

lemma manifest_open_failure:
  assumes "open_file path = Inl e"
  shows "process_manifest_file mp open_file yaml_load path = Inl e"
  using assms by (simp add: process_manifest_file_def)

lemma example_own_fields:
  "note_own_fields (note_notes DEFAULT_MANIFEST_SG_MAPPINGS) (example_note []) =
     Inr [(PStr ''sg_client_note_id'', PInt 11), (PStr ''content'', PStr ''hello''),
          (PStr ''department'', PStr ''edit''), (PStr ''description'', PStr ''from note''),
          (PStr ''note_type'', PStr ''kickoff''), (PStr ''attachments'', PList [])]"
  by (simp add: note_own_fields_def example_note_def DEFAULT_MANIFEST_SG_MAPPINGS_def
      map_fields_def map_key_def)

lemma example_snapshot_fields:
  "snapshot_fields (note_snapshots DEFAULT_MANIFEST_SG_MAPPINGS) (PDict example_snapshot) =
     Inr [(PStr ''sg_snapshot_id'', PInt 1002), (PStr ''manifest_name'', PStr ''egypt_riser_a''),
          (PStr ''department'', PStr ''model'')]"
  by (simp add: snapshot_fields_def example_snapshot_def DEFAULT_MANIFEST_SG_MAPPINGS_def
      map_fields_def map_key_def dict_pop_def)

theorem note_field_precedence_witness:
  "\<exists>final.
     merge_note_fields DEFAULT_MANIFEST_SG_MAPPINGS (PList example_snapshots)
       (PList example_versions) 0 (example_note []) = Inr final
   \<and> map_of final (PStr ''department'') = Some (PStr ''model'')
   \<and> map_of final (PStr ''description'') = Some (PStr ''from version'')
   \<and> map_of final (PStr ''content'') = Some (PStr ''hello'')"
proof -
  have r: "0 < length example_snapshots" "0 < length example_versions"
    "example_snapshots ! 0 = PDict example_snapshot"
    "example_versions ! 0 = PDict example_version"
    by (simp_all add: example_snapshots_def example_versions_def)
  from note_field_precedence [OF r example_own_fields example_snapshot_fields]
  obtain final where
    m: "merge_note_fields DEFAULT_MANIFEST_SG_MAPPINGS (PList example_snapshots)
          (PList example_versions) 0 (example_note []) = Inr final"
    and p: "\<And>key. key \<noteq> PStr ''file_types'' \<Longrightarrow>
          key \<noteq> PStr (map_key (note_versions DEFAULT_MANIFEST_SG_MAPPINGS) ''notes'') \<Longrightarrow>
          map_of final key =
            (case map_of (map_fields (note_snapshots DEFAULT_MANIFEST_SG_MAPPINGS)
                            example_snapshot) key of
               Some v \<Rightarrow> Some v
             | None \<Rightarrow>
                 (case map_of (map_fields (note_versions DEFAULT_MANIFEST_SG_MAPPINGS)
                                 example_version) key of
                    Some v \<Rightarrow> Some v
                  | None \<Rightarrow>
                      map_of [(PStr ''sg_client_note_id'', PInt 11),
                              (PStr ''content'', PStr ''hello''),
                              (PStr ''department'', PStr ''edit''),
                              (PStr ''description'', PStr ''from note''),
                              (PStr ''note_type'', PStr ''kickoff''),
                              (PStr ''attachments'', PList [])] key))"
    by blast
  have "map_of final (PStr ''department'') = Some (PStr ''model'')"
    by (subst p) (simp_all add: DEFAULT_MANIFEST_SG_MAPPINGS_def map_key_def map_fields_def
        example_snapshot_def)
  moreover have "map_of final (PStr ''description'') = Some (PStr ''from version'')"
    by (subst p) (simp_all add: DEFAULT_MANIFEST_SG_MAPPINGS_def map_key_def map_fields_def
        example_snapshot_def example_version_def)
  moreover have "map_of final (PStr ''content'') = Some (PStr ''hello'')"
    by (subst p) (simp_all add: DEFAULT_MANIFEST_SG_MAPPINGS_def map_key_def map_fields_def
        example_snapshot_def example_version_def)
  ultimately show ?thesis using m by blast
qed

theorem note_without_snapshot_or_version_witness:
  "merge_note_fields DEFAULT_MANIFEST_SG_MAPPINGS (PList example_snapshots)
     (PList example_versions) 5 (example_note []) =
     Inr [(PStr ''sg_client_note_id'', PInt 11), (PStr ''content'', PStr ''hello''),
          (PStr ''department'', PStr ''edit''), (PStr ''description'', PStr ''from note''),
          (PStr ''note_type'', PStr ''kickoff''), (PStr ''attachments'', PList [])]"
proof -
  have "5 \<ge> length example_snapshots \<or> 5 \<ge> length example_versions"
    by (simp add: example_snapshots_def)
  from note_without_snapshot_or_version [OF this] show ?thesis
    by (simp add: example_own_fields)
qed

lemma example_files:
  "map_exn (process_snapshot (file_snapshots DEFAULT_MANIFEST_SG_MAPPINGS)
              (os_path_dirname ''/dd/pkg/contents.yaml'')) example_snapshots =
     Inr [File [(PStr ''sg_snapshot_id'', PInt 1002),
                (PStr ''manifest_name'', PStr ''egypt_riser_a''),
                (PStr ''department'', PStr ''model'')]
            [(''/dd/pkg/a.mb'', [PStr ''main''])],
          File [(PStr ''sg_snapshot_id'', PInt 1003), (PStr ''manifest_name'', PStr ''plate'')]
            [(''/dd/pkg/plates'', [PStr ''exr''])]]"
  by (simp add: example_snapshots_def example_snapshot_def example_sequence_snapshot_def
      process_snapshot_def process_file_type_def add_file_def add_tag_def dict_pop_def
      map_fields_def map_key_def DEFAULT_MANIFEST_SG_MAPPINGS_def
      os_path_dirname_def os_path_join_def)

lemma example_read:
  "read_contents (example_manifest ns) =
     Inr (PList example_snapshots, PList ns, PList example_versions)"
  by (simp add: example_manifest_def read_contents_def)

lemma example_version_fields:
  "version_fields (note_versions DEFAULT_MANIFEST_SG_MAPPINGS) (PDict example_version) =
     Inr [(PStr ''sg_client_version_id'', PInt 7), (PStr ''version_name'', PStr ''v001''),
          (PStr ''department'', PStr ''anim''), (PStr ''description'', PStr ''from version'')]"
  by (simp add: version_fields_def example_version_def DEFAULT_MANIFEST_SG_MAPPINGS_def
      map_fields_def map_key_def dict_pop_def)

lemma example_merged:
  "merge_note_fields DEFAULT_MANIFEST_SG_MAPPINGS (PList example_snapshots)
     (PList example_versions) 0 (example_note []) =
     Inr [(PStr ''sg_client_note_id'', PInt 11), (PStr ''content'', PStr ''hello''),
          (PStr ''department'', PStr ''model''), (PStr ''description'', PStr ''from version''),
          (PStr ''note_type'', PStr ''kickoff''), (PStr ''attachments'', PList []),
          (PStr ''sg_client_version_id'', PInt 7), (PStr ''version_name'', PStr ''v001''),
          (PStr ''sg_snapshot_id'', PInt 1002),
          (PStr ''manifest_name'', PStr ''egypt_riser_a'')]"
proof -
  have "note_snapshot_version (PList example_snapshots) (PList example_versions) 0 =
          Inr (PDict example_snapshot, PDict example_version)"
    by (simp add: note_snapshot_version_def example_snapshots_def example_versions_def)
  then show ?thesis
    by (simp add: merge_note_fields_def example_own_fields example_version_fields
        example_snapshot_fields dict_update_def)
qed

lemma example_bare_merged:
  "merge_note_fields DEFAULT_MANIFEST_SG_MAPPINGS (PList example_snapshots)
     (PList example_versions) (length [example_note []]) example_bare_note =
     Inr [(PStr ''sg_client_note_id'', PInt 12), (PStr ''note_type'', PStr ''kickoff''),
          (PStr ''sg_client_version_id'', PInt 8), (PStr ''sg_snapshot_id'', PInt 1003),
          (PStr ''manifest_name'', PStr ''plate'')]"
proof -
  have "note_snapshot_version (PList example_snapshots) (PList example_versions) 1 =
          Inr (PDict example_sequence_snapshot, PDict [(PStr ''id'', PInt 8)])"
    by (simp add: note_snapshot_version_def example_snapshots_def example_versions_def)
  moreover have "note_own_fields (note_notes DEFAULT_MANIFEST_SG_MAPPINGS) example_bare_note =
          Inr [(PStr ''sg_client_note_id'', PInt 12), (PStr ''note_type'', PStr ''kickoff'')]"
    by (simp add: note_own_fields_def example_bare_note_def DEFAULT_MANIFEST_SG_MAPPINGS_def
        map_fields_def map_key_def)
  moreover have "version_fields (note_versions DEFAULT_MANIFEST_SG_MAPPINGS)
          (PDict [(PStr ''id'', PInt 8)]) = Inr [(PStr ''sg_client_version_id'', PInt 8)]"
    by (simp add: version_fields_def DEFAULT_MANIFEST_SG_MAPPINGS_def map_fields_def map_key_def)
  moreover have "snapshot_fields (note_snapshots DEFAULT_MANIFEST_SG_MAPPINGS)
          (PDict example_sequence_snapshot) =
          Inr [(PStr ''sg_snapshot_id'', PInt 1003), (PStr ''manifest_name'', PStr ''plate'')]"
    by (simp add: snapshot_fields_def example_sequence_snapshot_def
        DEFAULT_MANIFEST_SG_MAPPINGS_def map_fields_def map_key_def dict_pop_def)
  ultimately show ?thesis
    by (simp add: merge_note_fields_def dict_update_def)
qed

lemma example_first_note:
  "process_notes DEFAULT_MANIFEST_SG_MAPPINGS (os_path_dirname ''/dd/pkg/contents.yaml'')
     (PList example_snapshots) (PList example_versions) 0 [example_note []] =
     Inr [Note [(PStr ''sg_client_note_id'', PInt 11), (PStr ''content'', PStr ''hello''),
                (PStr ''department'', PStr ''model''),
                (PStr ''description'', PStr ''from version''),
                (PStr ''note_type'', PStr ''kickoff''),
                (PStr ''sg_client_version_id'', PInt 7), (PStr ''version_name'', PStr ''v001''),
                (PStr ''sg_snapshot_id'', PInt 1002),
                (PStr ''manifest_name'', PStr ''egypt_riser_a''),
                (PStr ''attachments'', PList [])] []]"
  by (simp add: process_note_def example_merged note_attachments_def dict_pop_def)

theorem note_attachments_required_witness:
  "process_manifest_file DEFAULT_MANIFEST_SG_MAPPINGS (\<lambda>p. Inr ())
     (\<lambda>f. Inr (example_manifest [example_note [], example_bare_note]))
     ''/dd/pkg/contents.yaml'' = Inl (KeyError (PStr ''attachments''))
   \<and> process_manifest_file DEFAULT_MANIFEST_SG_MAPPINGS (\<lambda>p. Inr ())
     (\<lambda>f. Inr (example_manifest [example_note []]))
     ''/dd/pkg/contents.yaml'' =
       Inr [File [(PStr ''sg_snapshot_id'', PInt 1002),
                  (PStr ''manifest_name'', PStr ''egypt_riser_a''),
                  (PStr ''department'', PStr ''model'')]
              [(''/dd/pkg/a.mb'', [PStr ''main''])],
            File [(PStr ''sg_snapshot_id'', PInt 1003), (PStr ''manifest_name'', PStr ''plate'')]
              [(''/dd/pkg/plates'', [PStr ''exr''])],
            Note [(PStr ''sg_client_note_id'', PInt 11), (PStr ''content'', PStr ''hello''),
                  (PStr ''department'', PStr ''model''),
                  (PStr ''description'', PStr ''from version''),
                  (PStr ''note_type'', PStr ''kickoff''),
                  (PStr ''sg_client_version_id'', PInt 7),
                  (PStr ''version_name'', PStr ''v001''),
                  (PStr ''sg_snapshot_id'', PInt 1002),
                  (PStr ''manifest_name'', PStr ''egypt_riser_a''),
                  (PStr ''attachments'', PList [])] []]"
proof -
  let ?path = "''/dd/pkg/contents.yaml''"
  have o: "(\<lambda>p. Inr ()) ?path = (Inr () :: pyexn + unit)" by simp
  have i: "py_iter (PList example_snapshots) = Inr example_snapshots" by simp
  have r2: "bind_exn ((\<lambda>f. Inr (example_manifest [example_note [], example_bare_note])) ())
              read_contents =
            Inr (PList example_snapshots, PList ([example_note []] @ example_bare_note # []),
                 PList example_versions)"
    by (simp add: example_read)
  have r1: "bind_exn ((\<lambda>f. Inr (example_manifest [example_note []])) ()) read_contents =
            Inr (PList example_snapshots, PList ([] @ example_note [] # []),
                 PList example_versions)"
    by (simp add: example_read)
  have e0: "process_notes DEFAULT_MANIFEST_SG_MAPPINGS (os_path_dirname ?path)
              (PList example_snapshots) (PList example_versions) 0 [] = Inr []"
    by simp
  have m0: "merge_note_fields DEFAULT_MANIFEST_SG_MAPPINGS (PList example_snapshots)
              (PList example_versions) (length ([] :: pyval list)) (example_note []) =
            Inr [(PStr ''sg_client_note_id'', PInt 11), (PStr ''content'', PStr ''hello''),
                 (PStr ''department'', PStr ''model''),
                 (PStr ''description'', PStr ''from version''),
                 (PStr ''note_type'', PStr ''kickoff''), (PStr ''attachments'', PList []),
                 (PStr ''sg_client_version_id'', PInt 7), (PStr ''version_name'', PStr ''v001''),
                 (PStr ''sg_snapshot_id'', PInt 1002),
                 (PStr ''manifest_name'', PStr ''egypt_riser_a'')]"
    by (simp add: example_merged)
  from note_attachments_required [OF o r2 i example_files example_first_note
      example_bare_merged]
  have missing: "process_manifest_file DEFAULT_MANIFEST_SG_MAPPINGS (\<lambda>p. Inr ())
     (\<lambda>f. Inr (example_manifest [example_note [], example_bare_note])) ?path
       = Inl (KeyError (PStr ''attachments''))"
    by simp
  from note_attachments_required [OF o r1 i example_files e0 m0]
  have empty: "process_manifest_file DEFAULT_MANIFEST_SG_MAPPINGS (\<lambda>p. Inr ())
     (\<lambda>f. Inr (example_manifest [example_note []])) ?path =
       Inr [File [(PStr ''sg_snapshot_id'', PInt 1002),
                  (PStr ''manifest_name'', PStr ''egypt_riser_a''),
                  (PStr ''department'', PStr ''model'')]
              [(''/dd/pkg/a.mb'', [PStr ''main''])],
            File [(PStr ''sg_snapshot_id'', PInt 1003), (PStr ''manifest_name'', PStr ''plate'')]
              [(''/dd/pkg/plates'', [PStr ''exr''])],
            Note [(PStr ''sg_client_note_id'', PInt 11), (PStr ''content'', PStr ''hello''),
                  (PStr ''department'', PStr ''model''),
                  (PStr ''description'', PStr ''from version''),
                  (PStr ''note_type'', PStr ''kickoff''),
                  (PStr ''sg_client_version_id'', PInt 7),
                  (PStr ''version_name'', PStr ''v001''),
                  (PStr ''sg_snapshot_id'', PInt 1002),
                  (PStr ''manifest_name'', PStr ''egypt_riser_a''),
                  (PStr ''attachments'', PList [])] []]"
    by simp
  from missing empty show ?thesis by (rule conjI)
qed

section \<open>Entity Linker: what \<open>undo\<close> deletes\<close>

lemma find_linked_entity_keeps_data:
  assumes "find_linked_entity sg st it qf db = (r, it1)"
  shows "map_of (properties it1) ''ingest_entity_data''
         = map_of (properties it) ''ingest_entity_data''"
  using assms
  by (auto simp: find_linked_entity_def Let_def update_conv' split: sum.splits if_splits)

lemma nothing_published_True:
  "nothing_published d le = Inr True \<longleftrightarrow>
     py_truthy d \<and> py_truthy le
     \<and> (\<exists>pf. py_getitem_str le ''sg_published_files'' = Inr pf \<and> py_len pf = Inr 0)"
proof (cases "py_truthy d \<and> py_truthy le")
  case False
  then show ?thesis by (auto simp: nothing_published_def)
next
  case True
  show ?thesis
  proof (cases "py_getitem_str le ''sg_published_files''")
    case (Inl e)
    with True show ?thesis by (simp add: nothing_published_def)
  next
    case (Inr pf)
    with True show ?thesis
      by (cases "py_len pf") (simp_all add: nothing_published_def)
  qed
qed

lemma undo_without_entity_data:
  "map_of (properties it) ''ingest_entity_data'' = None \<Longrightarrow>
   undo sg st it db = \<lparr>raised = None, item_after = it, db_after = db, delete_calls = []\<rparr>"
  by (simp add: undo_def)

lemma undo_delete_issued:
  assumes "delete_calls (undo sg st it db) \<noteq> []"
  shows "\<exists>d le it1 t i.
           map_of (properties it) ''ingest_entity_data'' = Some d
         \<and> find_linked_entity sg st it [''sg_published_files''] db = (Inr le, it1)
         \<and> nothing_published d le = Inr True
         \<and> py_getitem_str d ''type'' = Inr t \<and> py_getitem_str d ''id'' = Inr i
         \<and> delete_calls (undo sg st it db) = [(t, i)]
         \<and> db_after (undo sg st it db) = snd (sg_delete sg db t i)
         \<and> (map_of (properties (item_after (undo sg st it db))) ''ingest_entity_data''
              \<noteq> map_of (properties it) ''ingest_entity_data''
            \<longrightarrow> (\<exists>v. fst (sg_delete sg db t i) = Inr v))"
proof (cases "map_of (properties it) ''ingest_entity_data''")
  case None
  with assms show ?thesis by (simp add: undo_def)
next
  case (Some d)
  obtain r it1 where f: "find_linked_entity sg st it [''sg_published_files''] db = (r, it1)"
    by (cases "find_linked_entity sg st it [''sg_published_files''] db")
  note keep = find_linked_entity_keeps_data [OF f]
  show ?thesis
  proof (cases r)
    case (Inl e)
    with assms Some f show ?thesis by (simp add: undo_def)
  next
    case le: (Inr le)
    show ?thesis
    proof (cases "nothing_published d le")
      case (Inl e)
      with assms Some f le show ?thesis by (simp add: undo_def)
    next
      case (Inr b)
      show ?thesis
      proof (cases b)
        case False
        with assms Some f le Inr show ?thesis by (simp add: undo_def)
      next
        case True
        show ?thesis
        proof (cases "py_getitem_str d ''type''")
          case (Inl e)
          with assms Some f le Inr True show ?thesis by (simp add: undo_def)
        next
          case t: (Inr t)
          show ?thesis
          proof (cases "py_getitem_str d ''id''")
            case (Inl e)
            with assms Some f le Inr True t show ?thesis by (simp add: undo_def)
          next
            case i: (Inr i)
            obtain res db' where del: "sg_delete sg db t i = (res, db')"
              by (cases "sg_delete sg db t i")
            show ?thesis
              using Some f le Inr True t i del keep
              by (cases res) (simp_all add: undo_def)
          qed
        qed
      qed
    qed
  qed
qed

lemma undo_no_delete:
  assumes "delete_calls (undo sg st it db) = []"
  shows "db_after (undo sg st it db) = db
       \<and> map_of (properties (item_after (undo sg st it db))) ''ingest_entity_data''
         = map_of (properties it) ''ingest_entity_data''"
proof (cases "map_of (properties it) ''ingest_entity_data''")
  case None
  then show ?thesis by (simp add: undo_def)
next
  case (Some d)
  obtain r it1 where f: "find_linked_entity sg st it [''sg_published_files''] db = (r, it1)"
    by (cases "find_linked_entity sg st it [''sg_published_files''] db")
  note keep = find_linked_entity_keeps_data [OF f]
  show ?thesis
  proof (cases r)
    case (Inl e)
    with Some f keep show ?thesis by (simp add: undo_def)
  next
    case le: (Inr le)
    show ?thesis
    proof (cases "nothing_published d le")
      case (Inl e)
      with Some f le keep show ?thesis by (simp add: undo_def)
    next
      case (Inr b)
      show ?thesis
      proof (cases b)
        case False
        with Some f le Inr keep show ?thesis by (simp add: undo_def)
      next
        case True
        show ?thesis
        proof (cases "bind_exn (py_getitem_str d ''type'') (\<lambda>t.
                        bind_exn (py_getitem_str d ''id'') (\<lambda>i. Inr (t, i)))")
          case (Inl e)
          with Some f le Inr True keep show ?thesis by (simp add: undo_def)
        next
          case ti: (Inr ti)
          obtain t i where "ti = (t, i)" by (cases ti)
          moreover obtain res db' where "sg_delete sg db t i = (res, db')"
            by (cases "sg_delete sg db t i")
          ultimately show ?thesis
            using assms Some f le Inr True ti
            by (cases res) (simp_all add: undo_def)
        qed
      qed
    qed
  qed
qed

lemma undo_deletes:
  assumes "map_of (properties it) ''ingest_entity_data'' = Some d"
    and "find_linked_entity sg st it [''sg_published_files''] db = (Inr le, it1)"
    and "nothing_published d le = Inr True"
    and "py_getitem_str d ''type'' = Inr t" and "py_getitem_str d ''id'' = Inr i"
  shows "delete_calls (undo sg st it db) = [(t, i)]"
  using assms
  by (cases "sg_delete sg db t i"; cases "fst (sg_delete sg db t i)") (simp_all add: undo_def)

text \<open>
  C9: \<open>undo\<close> issues a \<open>delete\<close> only when the item has \<open>ingest_entity_data\<close> and
  the lookup finds a linked entity whose \<open>sg_published_files\<close> is empty; without a
  \<open>delete\<close> the database is as before; \<open>ingest_entity_data\<close> changes only after a
  \<open>delete\<close> that succeeded; and under the conditions of line 297, with the type and
  the id of the entity at hand, the \<open>delete\<close> is issued.
\<close>

theorem undo_deletes_only_unpublished:
  "(delete_calls (undo sg st it db) \<noteq> [] \<longrightarrow>
      (\<exists>d le it1.
          map_of (properties it) ''ingest_entity_data'' = Some d
        \<and> find_linked_entity sg st it [''sg_published_files''] db = (Inr le, it1)
        \<and> py_truthy le
        \<and> (\<exists>pf. py_getitem_str le ''sg_published_files'' = Inr pf \<and> py_len pf = Inr 0)))
   \<and> (delete_calls (undo sg st it db) = [] \<longrightarrow> db_after (undo sg st it db) = db)
   \<and> (map_of (properties (item_after (undo sg st it db))) ''ingest_entity_data''
         \<noteq> map_of (properties it) ''ingest_entity_data'' \<longrightarrow>
       (\<exists>t i v. delete_calls (undo sg st it db) = [(t, i)]
                \<and> fst (sg_delete sg db t i) = Inr v))
   \<and> (\<forall>d le it1 t i.
          map_of (properties it) ''ingest_entity_data'' = Some d
        \<and> find_linked_entity sg st it [''sg_published_files''] db = (Inr le, it1)
        \<and> nothing_published d le = Inr True
        \<and> py_getitem_str d ''type'' = Inr t \<and> py_getitem_str d ''id'' = Inr i \<longrightarrow>
          delete_calls (undo sg st it db) = [(t, i)])"
proof (intro conjI impI allI)
  assume "delete_calls (undo sg st it db) \<noteq> []"
  from undo_delete_issued [OF this]
  show "\<exists>d le it1.
          map_of (properties it) ''ingest_entity_data'' = Some d
        \<and> find_linked_entity sg st it [''sg_published_files''] db = (Inr le, it1)
        \<and> py_truthy le
        \<and> (\<exists>pf. py_getitem_str le ''sg_published_files'' = Inr pf \<and> py_len pf = Inr 0)"
    by (auto simp: nothing_published_True)
next
  assume "delete_calls (undo sg st it db) = []"
  then show "db_after (undo sg st it db) = db"
    by (simp add: undo_no_delete)
next
  assume c: "map_of (properties (item_after (undo sg st it db))) ''ingest_entity_data''
             \<noteq> map_of (properties it) ''ingest_entity_data''"
  then have "delete_calls (undo sg st it db) \<noteq> []"
    using undo_no_delete [of sg st it db] by blast
  from undo_delete_issued [OF this] c
  show "\<exists>t i v. delete_calls (undo sg st it db) = [(t, i)]
                \<and> fst (sg_delete sg db t i) = Inr v"
    by blast
next
  fix d le it1 t i
  assume "map_of (properties it) ''ingest_entity_data'' = Some d
        \<and> find_linked_entity sg st it [''sg_published_files''] db = (Inr le, it1)
        \<and> nothing_published d le = Inr True
        \<and> py_getitem_str d ''type'' = Inr t \<and> py_getitem_str d ''id'' = Inr i"
  then show "delete_calls (undo sg st it db) = [(t, i)]"
    by (auto intro: undo_deletes)
qed

lemma example_find_linked_entity:
  "find_linked_entity (linked_entity_shotgun published) example_snapshot_settings example_item
     [''sg_published_files''] db =
     (Inr (PDict [(PStr ''type'', PStr ''Element''), (PStr ''id'', PInt 42),
                  (PStr ''sg_published_files'', PList published)]),
      example_item\<lparr>properties :=
        [(''ingest_entity_data'', example_entity_data),
         (''fields'', PDict [(PStr ''snapshot_type'', PStr ''work_plate'')]),
         (''publish_linked_entity_name'', PStr ''plate_bg''),
         (''linked_entity_type'', PStr ''Element'')]\<rparr>)"
  by (simp add: find_linked_entity_def resolve_linked_entity_type_def linked_entity_filters_def
      example_item_def example_snapshot_settings_def example_context_def example_shot_def
      linked_entity_shotgun_def UNLINKED_ENTITY_TYPE_def Let_def)

theorem undo_deletes_only_unpublished_witness:
  "delete_calls (undo (linked_entity_shotgun []) example_snapshot_settings example_item
                   [PInt 42, PInt 43]) = [(PStr ''Element'', PInt 42)]
   \<and> delete_calls (undo (linked_entity_shotgun [PDict [(PStr ''id'', PInt 9)]])
                     example_snapshot_settings example_item [PInt 42, PInt 43]) = []
   \<and> db_after (undo (linked_entity_shotgun [PDict [(PStr ''id'', PInt 9)]])
                  example_snapshot_settings example_item [PInt 42, PInt 43])
       = [PInt 42, PInt 43]"
proof -
  let ?published = "[PDict [(PStr ''id'', PInt 9)]]"
  have d: "map_of (properties example_item) ''ingest_entity_data'' = Some example_entity_data"
    by (simp add: example_item_def)
  have n: "nothing_published example_entity_data
             (PDict [(PStr ''type'', PStr ''Element''), (PStr ''id'', PInt 42),
                     (PStr ''sg_published_files'', PList [])]) = Inr True"
    by (simp add: nothing_published_def example_entity_data_def)
  have t: "py_getitem_str example_entity_data ''type'' = Inr (PStr ''Element'')"
    and i: "py_getitem_str example_entity_data ''id'' = Inr (PInt 42)"
    by (simp_all add: example_entity_data_def)
  have p: "nothing_published example_entity_data
             (PDict [(PStr ''type'', PStr ''Element''), (PStr ''id'', PInt 42),
                     (PStr ''sg_published_files'', PList ?published)]) = Inr False"
    by (simp add: nothing_published_def example_entity_data_def)
  have none: "delete_calls (undo (linked_entity_shotgun ?published) example_snapshot_settings
                 example_item [PInt 42, PInt 43]) = []"
    by (simp add: undo_def d example_find_linked_entity p)
  from undo_deletes_only_unpublished [of "linked_entity_shotgun []" example_snapshot_settings
      example_item "[PInt 42, PInt 43]"] d n t i
  have "delete_calls (undo (linked_entity_shotgun []) example_snapshot_settings example_item
                   [PInt 42, PInt 43]) = [(PStr ''Element'', PInt 42)]"
    by (simp add: example_find_linked_entity)
  moreover from undo_deletes_only_unpublished [of "linked_entity_shotgun ?published"
      example_snapshot_settings example_item "[PInt 42, PInt 43]"] none
  have "db_after (undo (linked_entity_shotgun ?published) example_snapshot_settings
                   example_item [PInt 42, PInt 43]) = [PInt 42, PInt 43]"
    by blast
  ultimately show ?thesis using none by simp
qed

lemma example_undo_result:
  "undo (linked_entity_shotgun []) example_snapshot_settings example_item [PInt 42, PInt 43] =
     \<lparr>raised = None,
      item_after = example_item\<lparr>properties :=
        [(''fields'', PDict [(PStr ''snapshot_type'', PStr ''work_plate'')]),
         (''publish_linked_entity_name'', PStr ''plate_bg''),
         (''linked_entity_type'', PStr ''Element'')]\<rparr>,
      db_after = [PInt 43], delete_calls = [(PStr ''Element'', PInt 42)]\<rparr>"
proof -
  have d: "map_of (properties example_item) ''ingest_entity_data'' = Some example_entity_data"
    by (simp add: example_item_def)
  have n: "nothing_published example_entity_data
             (PDict [(PStr ''type'', PStr ''Element''), (PStr ''id'', PInt 42),
                     (PStr ''sg_published_files'', PList [])]) = Inr True"
    by (simp add: nothing_published_def example_entity_data_def)
  have t: "py_getitem_str example_entity_data ''type'' = Inr (PStr ''Element'')"
    and i: "py_getitem_str example_entity_data ''id'' = Inr (PInt 42)"
    by (simp_all add: example_entity_data_def)
  have del: "sg_delete (linked_entity_shotgun []) [PInt 42, PInt 43] (PStr ''Element'') (PInt 42)
             = (Inr (PBool True), [PInt 43])"
    by (simp add: linked_entity_shotgun_def)
  show ?thesis
    by (simp add: undo_def d example_find_linked_entity n t i del)
qed

section \<open>Context Resolver: failures of the vendor task\<close>

lemma vendor_task_create_raises:
  assumes "step_content step_entity = Inr content"
    and "sg_find_one sg db ''Task''
           [(''step'', ''is'', step_entity), (''entity'', ''is'', ctx_entity ctx),
            (''project'', ''is'', ctx_project ctx), (''content'', ''is'', content)]
           [''content'', ''entity_type'', ''id''] = Inr found"
    and "\<not> py_truthy found"
    and "sg_create sg db ''Task''
           [(PStr ''step'', step_entity), (PStr ''project'', ctx_project ctx),
            (PStr ''entity'', ctx_entity ctx), (PStr ''content'', content),
            (PStr ''sg_status_list'', PStr ''na'')] = (Inl e, db1)"
  shows "vendor_task sg base_context work_path_template path ctx step_entity db = (Inl e, db1)"
  using assms by (simp add: vendor_task_def)

lemma vendor_task_create_returns_nothing:
  assumes "step_content step_entity = Inr content"
    and "sg_find_one sg db ''Task''
           [(''step'', ''is'', step_entity), (''entity'', ''is'', ctx_entity ctx),
            (''project'', ''is'', ctx_project ctx), (''content'', ''is'', content)]
           [''content'', ''entity_type'', ''id''] = Inr found"
    and "\<not> py_truthy found"
    and "sg_create sg db ''Task''
           [(PStr ''step'', step_entity), (PStr ''project'', ctx_project ctx),
            (PStr ''entity'', ctx_entity ctx), (PStr ''content'', content),
            (PStr ''sg_status_list'', PStr ''na'')] = (Inr created, db1)"
    and "\<not> py_truthy created"
  shows "vendor_task sg base_context work_path_template path ctx step_entity db =
           (base_context db1 work_path_template path [step_entity], db1)"
  using assms by (simp add: vendor_task_def)

lemma vendor_task_update_failure_ignored:
  assumes "step_content step_entity = Inr content"
    and "sg_find_one sg db ''Task''
           [(''step'', ''is'', step_entity), (''entity'', ''is'', ctx_entity ctx),
            (''project'', ''is'', ctx_project ctx), (''content'', ''is'', content)]
           [''content'', ''entity_type'', ''id''] = Inr found"
    and "py_truthy found"
    and "py_getitem_str found ''id'' = Inr task_id"
    and "sg_update sg db ''Task'' task_id [(PStr ''sg_status_list'', PStr ''na'')] = (Inl e, db2)"
  shows "vendor_task sg base_context work_path_template path ctx step_entity db =
           (base_context db2 work_path_template path [step_entity, found], db2)"
  using assms by (simp add: vendor_task_def)

text \<open>
  C7: a failure to create the vendor task should be logged and leave the context
  resolution going.  The source handles a \<open>create\<close> that returns nothing, but an
  exception of \<open>create\<close> is not caught: with a vendor step, no task, and a
  \<open>create\<close> that raises, the resolution raises.
\<close>

theorem task_create_exception_propagates:
  "get_item_context_from_path create_failing_shotgun (\<lambda>t. False) example_base_context
     ''shot_work_area'' ''/proj/shots/sh010/plate.exr'' [] () = (Inl RemoteError, ())"
  by (simp add: get_item_context_from_path_def example_base_context_def example_context_def
      example_shot_def find_step_def create_failing_shotgun_def example_step_def
      vendor_task_def step_content_def)

end
